theory Spec2Isabelle
  imports Main
begin

section \<open>Data model\<close>

text \<open>
  The resource file \<^verbatim>\<open>vsphere/resource_vsphere_vmfs_datastore.go\<close> drives a remote
  storage endpoint through helper functions that live in other files of the provider and
  in the libraries it imports. Object handles are modelled by their managed object
  reference, errors of the helpers by an opaque type \<open>'e\<close>, and the remote endpoint by
  an opaque world \<open>'w\<close> that every helper call may change.
\<close>

type_synonym HostDatastoreSystem = string

record Datastore =
  Reference :: string
  InventoryPath :: string

record VmfsDatastoreCreateSpec =
  Vmfs_VolumeName :: string
  Vmfs_Extent :: string

type_synonym VmfsDatastoreExtendSpec = string

record DatastoreSummary =
  Type :: string

record DatastoreHostMount =
  Key :: string

record HostScsiDiskPartition =
  DiskName :: string
  Partition :: int

record HostVmfsVolume =
  Extent :: "HostScsiDiskPartition list"

text \<open>
  \<^verbatim>\<open>props.Info\<close> is an interface value. Its dynamic type is either
  \<^verbatim>\<open>*types.VmfsDatastoreInfo\<close>, whose \<^verbatim>\<open>Vmfs\<close> field is a pointer that may be nil, or
  anything else (another datastore info type, a nil interface): the type assertion of
  the read panics on the latter, the dereference of a nil \<^verbatim>\<open>Vmfs\<close> on the former.
\<close>

datatype BaseDatastoreInfo =
  VmfsDatastoreInfo "HostVmfsVolume option"
| OtherDatastoreInfo

record DatastoreProps =
  Summary :: DatastoreSummary
  Host :: "DatastoreHostMount list"
  Info :: BaseDatastoreInfo

text \<open>
  The resource data \<^verbatim>\<open>d\<close>: its identifier, the configured attributes read by
  \<^verbatim>\<open>d.Get\<close>, and for the attributes the update compares (\<^verbatim>\<open>d.HasChange\<close>,
  \<^verbatim>\<open>d.GetChange\<close>) the previously recorded values.
\<close>

record ResourceData =
  Id_d :: string
  host_system_id :: string
  name :: string
  old_name :: string
  folder :: string
  old_folder :: string
  disks :: "string list"
  old_disks :: "string list"

text \<open>
  A Go \<^verbatim>\<open>error\<close> returned by the resource functions: either built here with
  \<^verbatim>\<open>fmt.Errorf\<close> or \<^verbatim>\<open>errors.New\<close>, or the value a helper returned, passed on
  untouched.
\<close>

datatype 'e error =
  ErrorString string
| Foreign 'e

datatype ('e, 'a) outcome =
  OK 'a
| Err "'e error"
| Panic

section \<open>The helpers called by the resource\<close>

datatype prim =
  HostDatastoreSystemFromHostSystemID
| DiskSpecForCreate
| CreateVmfsDatastore
| MoveDatastoreToFolderRelativeHostSystemID
| RemoveDatastore
| DiskSpecForExtend
| ExtendVmfsDatastore
| DatastoreFromID
| DatastoreProperties
| RenameObject
| MoveDatastoreToFolder

text \<open>
  One remote call as it is observed from outside: which helper, on which arguments, and
  the error it returned (\<open>None\<close> when it succeeded).
\<close>

datatype 'e call = Call prim "string list" "'e option"

fun call_prim :: "'e call \<Rightarrow> prim" where
  "call_prim (Call p args r) = p"

fun call_args :: "'e call \<Rightarrow> string list" where
  "call_args (Call p args r) = args"

fun call_result :: "'e call \<Rightarrow> 'e option" where
  "call_result (Call p args r) = r"

fun mutating :: "prim \<Rightarrow> bool" where
  "mutating CreateVmfsDatastore = True"
| "mutating MoveDatastoreToFolderRelativeHostSystemID = True"
| "mutating RemoveDatastore = True"
| "mutating ExtendVmfsDatastore = True"
| "mutating RenameObject = True"
| "mutating MoveDatastoreToFolder = True"
| "mutating p = False"

record ('w, 'e) state =
  world :: 'w
  calls :: "'e call list"

text \<open>
  The functions of the provider and of its libraries that this file calls and that are
  not part of it. The remote ones take the world and return the new one; the others
  are pure. \<open>quote\<close> is the rendering of the \<^verbatim>\<open>%q\<close> verb, \<open>errorText\<close> the
  \<^verbatim>\<open>Error()\<close> method that \<^verbatim>\<open>%s\<close> prints, \<open>timeoutError\<close> the error the
  state-change waiter builds from the last state it saw when its timeout elapses,
  \<open>unexpectedStateError\<close> the one it builds for a state that is neither pending nor
  a target.
\<close>

record ('w, 'e) helpers =
  ext_hostDatastoreSystemFromHostSystemID ::
    "string \<Rightarrow> 'w \<Rightarrow> ('e + HostDatastoreSystem) \<times> 'w"
  ext_diskSpecForCreate ::
    "HostDatastoreSystem \<Rightarrow> string \<Rightarrow> 'w \<Rightarrow> ('e + VmfsDatastoreCreateSpec) \<times> 'w"
  ext_CreateVmfsDatastore ::
    "HostDatastoreSystem \<Rightarrow> VmfsDatastoreCreateSpec \<Rightarrow> 'w \<Rightarrow> ('e + Datastore) \<times> 'w"
  ext_moveDatastoreToFolderRelativeHostSystemID ::
    "Datastore \<Rightarrow> string \<Rightarrow> string \<Rightarrow> 'w \<Rightarrow> ('e + unit) \<times> 'w"
  ext_removeDatastore ::
    "HostDatastoreSystem \<Rightarrow> Datastore \<Rightarrow> 'w \<Rightarrow> ('e + unit) \<times> 'w"
  ext_diskSpecForExtend ::
    "HostDatastoreSystem \<Rightarrow> Datastore \<Rightarrow> string \<Rightarrow> 'w \<Rightarrow> ('e + VmfsDatastoreExtendSpec) \<times> 'w"
  ext_extendVmfsDatastore ::
    "HostDatastoreSystem \<Rightarrow> Datastore \<Rightarrow> VmfsDatastoreExtendSpec \<Rightarrow> 'w \<Rightarrow> ('e + Datastore) \<times> 'w"
  ext_datastoreFromID :: "string \<Rightarrow> 'w \<Rightarrow> ('e + Datastore) \<times> 'w"
  ext_datastoreProperties :: "Datastore \<Rightarrow> 'w \<Rightarrow> ('e + DatastoreProps) \<times> 'w"
  ext_renameObject :: "string \<Rightarrow> string \<Rightarrow> 'w \<Rightarrow> ('e + unit) \<times> 'w"
  ext_moveDatastoreToFolder :: "Datastore \<Rightarrow> string \<Rightarrow> 'w \<Rightarrow> ('e + unit) \<times> 'w"
  pathIsEmpty :: "string \<Rightarrow> bool"
  normalizeFolderPath :: "string \<Rightarrow> string"
  SplitRelativeFolder :: "string \<Rightarrow> 'e + string"
  flattenDatastoreSummary :: "ResourceData \<Rightarrow> DatastoreSummary \<Rightarrow> 'e + ResourceData"
  Set_disks :: "ResourceData \<Rightarrow> string list \<Rightarrow> 'e + ResourceData"
  isResourceInUseError :: "'e \<Rightarrow> bool"
  isManagedObjectNotFoundError :: "'e \<Rightarrow> bool"
  errorText :: "'e \<Rightarrow> string"
  quote :: "string \<Rightarrow> string"
  timeoutError :: "string \<Rightarrow> 'e"
  unexpectedStateError :: "string \<Rightarrow> 'e"

text \<open>A helper call on the remote endpoint: run it on the world and record it.\<close>

definition remote ::
  "prim \<Rightarrow> string list \<Rightarrow> ('w \<Rightarrow> ('e + 'a) \<times> 'w) \<Rightarrow> ('w, 'e) state \<Rightarrow> ('e + 'a) \<times> ('w, 'e) state" where
  "remote p args f s =
     (case f (world s) of
        (r, w') \<Rightarrow>
          (r, \<lparr>world = w',
               calls = calls s @ [Call p args (case r of Inl e \<Rightarrow> Some e | Inr x \<Rightarrow> None)]\<rparr>))"

definition hostDatastoreSystemFromHostSystemID ::
  "('w, 'e) helpers \<Rightarrow> string \<Rightarrow> ('w, 'e) state \<Rightarrow> ('e + HostDatastoreSystem) \<times> ('w, 'e) state" where
  "hostDatastoreSystemFromHostSystemID env hsID =
     remote HostDatastoreSystemFromHostSystemID [hsID]
       (ext_hostDatastoreSystemFromHostSystemID env hsID)"

definition diskSpecForCreate ::
  "('w, 'e) helpers \<Rightarrow> HostDatastoreSystem \<Rightarrow> string \<Rightarrow> ('w, 'e) state
     \<Rightarrow> ('e + VmfsDatastoreCreateSpec) \<times> ('w, 'e) state" where
  "diskSpecForCreate env dss disk =
     remote DiskSpecForCreate [dss, disk] (ext_diskSpecForCreate env dss disk)"

definition CreateVmfsDatastore_call ::
  "('w, 'e) helpers \<Rightarrow> HostDatastoreSystem \<Rightarrow> VmfsDatastoreCreateSpec \<Rightarrow> ('w, 'e) state
     \<Rightarrow> ('e + Datastore) \<times> ('w, 'e) state" where
  "CreateVmfsDatastore_call env dss spec =
     remote CreateVmfsDatastore [dss, Vmfs_VolumeName spec, Vmfs_Extent spec]
       (ext_CreateVmfsDatastore env dss spec)"

definition moveDatastoreToFolderRelativeHostSystemID ::
  "('w, 'e) helpers \<Rightarrow> Datastore \<Rightarrow> string \<Rightarrow> string \<Rightarrow> ('w, 'e) state
     \<Rightarrow> ('e + unit) \<times> ('w, 'e) state" where
  "moveDatastoreToFolderRelativeHostSystemID env ds hsID fo =
     remote MoveDatastoreToFolderRelativeHostSystemID [Reference ds, hsID, fo]
       (ext_moveDatastoreToFolderRelativeHostSystemID env ds hsID fo)"

definition removeDatastore ::
  "('w, 'e) helpers \<Rightarrow> HostDatastoreSystem \<Rightarrow> Datastore \<Rightarrow> ('w, 'e) state
     \<Rightarrow> ('e + unit) \<times> ('w, 'e) state" where
  "removeDatastore env dss ds =
     remote RemoveDatastore [dss, Reference ds] (ext_removeDatastore env dss ds)"

definition diskSpecForExtend ::
  "('w, 'e) helpers \<Rightarrow> HostDatastoreSystem \<Rightarrow> Datastore \<Rightarrow> string \<Rightarrow> ('w, 'e) state
     \<Rightarrow> ('e + VmfsDatastoreExtendSpec) \<times> ('w, 'e) state" where
  "diskSpecForExtend env dss ds disk =
     remote DiskSpecForExtend [dss, Reference ds, disk] (ext_diskSpecForExtend env dss ds disk)"

definition extendVmfsDatastore ::
  "('w, 'e) helpers \<Rightarrow> HostDatastoreSystem \<Rightarrow> Datastore \<Rightarrow> VmfsDatastoreExtendSpec
     \<Rightarrow> ('w, 'e) state \<Rightarrow> ('e + Datastore) \<times> ('w, 'e) state" where
  "extendVmfsDatastore env dss ds spec =
     remote ExtendVmfsDatastore [dss, Reference ds, spec] (ext_extendVmfsDatastore env dss ds spec)"

definition datastoreFromID ::
  "('w, 'e) helpers \<Rightarrow> string \<Rightarrow> ('w, 'e) state \<Rightarrow> ('e + Datastore) \<times> ('w, 'e) state" where
  "datastoreFromID env ident = remote DatastoreFromID [ident] (ext_datastoreFromID env ident)"

definition datastoreProperties ::
  "('w, 'e) helpers \<Rightarrow> Datastore \<Rightarrow> ('w, 'e) state \<Rightarrow> ('e + DatastoreProps) \<times> ('w, 'e) state" where
  "datastoreProperties env ds =
     remote DatastoreProperties [Reference ds] (ext_datastoreProperties env ds)"

definition renameObject ::
  "('w, 'e) helpers \<Rightarrow> string \<Rightarrow> string \<Rightarrow> ('w, 'e) state \<Rightarrow> ('e + unit) \<times> ('w, 'e) state" where
  "renameObject env ref nm = remote RenameObject [ref, nm] (ext_renameObject env ref nm)"

definition moveDatastoreToFolder ::
  "('w, 'e) helpers \<Rightarrow> Datastore \<Rightarrow> string \<Rightarrow> ('w, 'e) state \<Rightarrow> ('e + unit) \<times> ('w, 'e) state" where
  "moveDatastoreToFolder env ds fo =
     remote MoveDatastoreToFolder [Reference ds, fo] (ext_moveDatastoreToFolder env ds fo)"

section \<open>Import\<close>

text \<open>
  \<^verbatim>\<open>strings.SplitN(s, ":", 2)\<close>: the string itself when it holds no colon, otherwise
  the text before the first colon and everything after it.
\<close>

definition SplitN_colon_2 :: "string \<Rightarrow> string list" where
  "SplitN_colon_2 s =
     (if CHR '':'' \<in> set s
      then [takeWhile (\<lambda>c. c \<noteq> CHR '':'') s, tl (dropWhile (\<lambda>c. c \<noteq> CHR '':'') s)]
      else [s])"

text \<open>The constant of the vSphere API types for the VMFS file system.\<close>

definition HostFileSystemVolumeFileSystemTypeVMFS :: string where
  "HostFileSystemVolumeFileSystemTypeVMFS = ''VMFS''"

text \<open>
  The scan of \<^verbatim>\<open>props.Host\<close> (lines 384 to 389): the flag is set at every mount whose
  key is the host, and never cleared.
\<close>

fun host_found :: "string \<Rightarrow> DatastoreHostMount list \<Rightarrow> bool \<Rightarrow> bool" where
  "host_found hsID [] found = found"
| "host_found hsID (mount # mounts) found =
     host_found hsID mounts (if Key mount = hsID then True else found)"

definition resourceVSphereVmfsDatastoreImport ::
  "('w, 'e) helpers \<Rightarrow> ResourceData \<Rightarrow> ('w, 'e) state
     \<Rightarrow> ('e, ResourceData list) outcome \<times> ('w, 'e) state" where
  "resourceVSphereVmfsDatastoreImport env d s =
     (let ids = SplitN_colon_2 (Id_d d) in
      if length ids \<noteq> 2
      then (Err (ErrorString
              ''please supply the ID in the following format: DATASTOREID:HOSTID''), s)
      else
        let ident = ids ! 0; hsID = ids ! 1 in
        case datastoreFromID env ident s of
          (Inl err, s1) \<Rightarrow>
            (Err (ErrorString (''cannot find datastore: '' @ errorText env err)), s1)
        | (Inr ds, s1) \<Rightarrow>
            (case datastoreProperties env ds s1 of
               (Inl err, s2) \<Rightarrow>
                 (Err (ErrorString
                    (''could not get properties for datastore: '' @ errorText env err)), s2)
             | (Inr props, s2) \<Rightarrow>
                 if Type (Summary props) \<noteq> HostFileSystemVolumeFileSystemTypeVMFS
                 then (Err (ErrorString
                        (''datastore ID '' @ quote env ident @ '' is not a VMFS datastore'')), s2)
                 else if \<not> host_found hsID (Host props) False
                 then (Err (ErrorString
                        (''configured host_system_id '' @ quote env hsID
                           @ '' not found as a mounted host on datastore'')), s2)
                 else (OK [d\<lparr>Id_d := ident, host_system_id := hsID\<rparr>], s2)))"

section \<open>Read\<close>

definition resourceVSphereVmfsDatastoreRead ::
  "('w, 'e) helpers \<Rightarrow> ResourceData \<Rightarrow> ('w, 'e) state
     \<Rightarrow> ('e, ResourceData) outcome \<times> ('w, 'e) state" where
  "resourceVSphereVmfsDatastoreRead env d s =
     (case datastoreFromID env (Id_d d) s of
        (Inl err, s1) \<Rightarrow>
          (Err (ErrorString (''cannot find datastore: '' @ errorText env err)), s1)
      | (Inr ds, s1) \<Rightarrow>
          (case datastoreProperties env ds s1 of
             (Inl err, s2) \<Rightarrow>
               (Err (ErrorString
                  (''could not get properties for datastore: '' @ errorText env err)), s2)
           | (Inr props, s2) \<Rightarrow>
               (case flattenDatastoreSummary env d (Summary props) of
                  Inl err \<Rightarrow> (Err (Foreign err), s2)
                | Inr d1 \<Rightarrow>
                    (case SplitRelativeFolder env (InventoryPath ds) of
                       Inl err \<Rightarrow>
                         (Err (ErrorString
                            (''error parsing datastore path '' @ quote env (InventoryPath ds)
                               @ '': '' @ errorText env err)), s2)
                     | Inr fo \<Rightarrow>
                         (let d2 = d1\<lparr>folder := normalizeFolderPath env fo\<rparr> in
                          case Info props of
                            OtherDatastoreInfo \<Rightarrow> (Panic, s2)
                          | VmfsDatastoreInfo None \<Rightarrow> (Panic, s2)
                          | VmfsDatastoreInfo (Some vmfs) \<Rightarrow>
                              (case Set_disks env d2 (map DiskName (Extent vmfs)) of
                                 Inl err \<Rightarrow> (Err (Foreign err), s2)
                               | Inr d3 \<Rightarrow> (OK d3, s2)))))))"

section \<open>Create\<close>

definition nl :: string where
  "nl = [CHR 0x0A]"

text \<open>
  The three rollback formats, as functions of their rendered arguments. The third one
  is declared by the source and used nowhere in it.
\<close>

definition formatVmfsDatastoreCreateRollbackErrorFolder ::
  "string \<Rightarrow> string \<Rightarrow> string \<Rightarrow> string" where
  "formatVmfsDatastoreCreateRollbackErrorFolder fo err remErr =
     nl @ ''WARNING: Dangling resource!'' @ nl
     @ ''There was an error moving your datastore to the desired folder '' @ fo @ '':'' @ nl
     @ err @ nl
     @ ''Additionally, there was an error removing the created datastore:'' @ nl
     @ remErr @ nl
     @ ''You will need to remove this datastore manually before trying again.'' @ nl"

definition formatVmfsDatastoreCreateRollbackErrorUpdate ::
  "string \<Rightarrow> string \<Rightarrow> string \<Rightarrow> string" where
  "formatVmfsDatastoreCreateRollbackErrorUpdate disk err remErr =
     nl @ ''WARNING: Dangling resource!'' @ nl
     @ ''There was an error extending your datastore with disk: '' @ disk @ '':'' @ nl
     @ err @ nl
     @ ''Additionally, there was an error removing the created datastore:'' @ nl
     @ remErr @ nl
     @ ''You will need to remove this datastore manually before trying again.'' @ nl"

definition formatVmfsDatastoreCreateRollbackErrorProperties ::
  "string \<Rightarrow> string \<Rightarrow> string" where
  "formatVmfsDatastoreCreateRollbackErrorProperties err remErr =
     nl @ ''WARNING: Dangling resource!'' @ nl
     @ ''After creating the datastore, there was an error fetching its properties:'' @ nl
     @ err @ nl
     @ ''Additionally, there was an error removing the created datastore:'' @ nl
     @ remErr @ nl
     @ ''You will need to remove this datastore manually before trying again.'' @ nl"

text \<open>Lines 123 to 135: the move to the folder, when one is given.\<close>

definition moveOnCreate ::
  "('w, 'e) helpers \<Rightarrow> HostDatastoreSystem \<Rightarrow> Datastore \<Rightarrow> string \<Rightarrow> string
     \<Rightarrow> ('w, 'e) state \<Rightarrow> 'e error option \<times> ('w, 'e) state" where
  "moveOnCreate env dss ds hsID fo s =
     (if \<not> pathIsEmpty env fo
      then
        (case moveDatastoreToFolderRelativeHostSystemID env ds hsID fo s of
           (Inl err, s1) \<Rightarrow>
             (case removeDatastore env dss ds s1 of
                (Inl remErr, s2) \<Rightarrow>
                  (Some (ErrorString
                     (formatVmfsDatastoreCreateRollbackErrorFolder
                        (quote env fo) (errorText env err) (errorText env remErr))), s2)
              | (Inr u, s2) \<Rightarrow>
                  (Some (ErrorString
                     (''could not move datastore to folder '' @ quote env fo @ '': ''
                        @ errorText env err)), s2))
         | (Inr u, s1) \<Rightarrow> (None, s1))
      else (None, s))"

text \<open>Lines 138 to 161: the loop over \<^verbatim>\<open>disks[1:]\<close>.\<close>

fun extendOnCreate ::
  "('w, 'e) helpers \<Rightarrow> HostDatastoreSystem \<Rightarrow> Datastore \<Rightarrow> string list
     \<Rightarrow> ('w, 'e) state \<Rightarrow> 'e error option \<times> ('w, 'e) state" where
  "extendOnCreate env dss ds [] s = (None, s)"
| "extendOnCreate env dss ds (disk # rest) s =
     (case diskSpecForExtend env dss ds disk s of
        (Inl err, s1) \<Rightarrow>
          (case removeDatastore env dss ds s1 of
             (Inl remErr, s2) \<Rightarrow>
               (Some (ErrorString
                  (formatVmfsDatastoreCreateRollbackErrorUpdate
                     (quote env disk) (errorText env err) (errorText env remErr))), s2)
           | (Inr u, s2) \<Rightarrow>
               (Some (ErrorString
                  (''error fetching datastore extend spec for disk '' @ quote env disk
                     @ '': '' @ errorText env err)), s2))
      | (Inr spec, s1) \<Rightarrow>
          (case extendVmfsDatastore env dss ds spec s1 of
             (Inl err, s2) \<Rightarrow>
               (case removeDatastore env dss ds s2 of
                  (Inl remErr, s3) \<Rightarrow>
                    (Some (ErrorString
                       (formatVmfsDatastoreCreateRollbackErrorUpdate
                          (quote env disk) (errorText env err) (errorText env remErr))), s3)
                | (Inr u, s3) \<Rightarrow>
                    (Some (ErrorString
                       (''error extending datastore with disk '' @ quote env disk
                          @ '': '' @ errorText env err)), s3))
           | (Inr ds', s2) \<Rightarrow> extendOnCreate env dss ds rest s2))"

text \<open>
  \<^verbatim>\<open>disks[0]\<close> on an empty list is an index out of range: the schema asks for at
  least one disk, the function itself does not check.
\<close>

definition resourceVSphereVmfsDatastoreCreate ::
  "('w, 'e) helpers \<Rightarrow> ResourceData \<Rightarrow> ('w, 'e) state
     \<Rightarrow> ('e, ResourceData) outcome \<times> ('w, 'e) state" where
  "resourceVSphereVmfsDatastoreCreate env d s =
     (case hostDatastoreSystemFromHostSystemID env (host_system_id d) s of
        (Inl err, s1) \<Rightarrow>
          (Err (ErrorString (''error loading host datastore system: '' @ errorText env err)), s1)
      | (Inr dss, s1) \<Rightarrow>
          (case disks d of
             [] \<Rightarrow> (Panic, s1)
           | disk # rest \<Rightarrow>
               (case diskSpecForCreate env dss disk s1 of
                  (Inl err, s2) \<Rightarrow> (Err (Foreign err), s2)
                | (Inr spec, s2) \<Rightarrow>
                    (case CreateVmfsDatastore_call env dss (spec\<lparr>Vmfs_VolumeName := name d\<rparr>) s2 of
                       (Inl err, s3) \<Rightarrow>
                         (Err (ErrorString
                            (''error creating datastore with disk '' @ disk @ '': ''
                               @ errorText env err)), s3)
                     | (Inr ds, s3) \<Rightarrow>
                         (case moveOnCreate env dss ds (host_system_id d) (folder d) s3 of
                            (Some e, s4) \<Rightarrow> (Err e, s4)
                          | (None, s4) \<Rightarrow>
                              (case extendOnCreate env dss ds rest s4 of
                                 (Some e, s5) \<Rightarrow> (Err e, s5)
                               | (None, s5) \<Rightarrow>
                                   resourceVSphereVmfsDatastoreRead env
                                     (d\<lparr>Id_d := Reference ds\<rparr>) s5))))))"

section \<open>Update\<close>

text \<open>The inner loops of lines 236 to 241 and 250 to 255: a flag set on every match.\<close>

fun disk_found :: "string \<Rightarrow> string list \<Rightarrow> bool \<Rightarrow> bool" where
  "disk_found v1 [] found = found"
| "disk_found v1 (v2 # vs) found = disk_found v1 vs (if v1 = v2 then True else found)"

text \<open>Lines 234 to 245: the veto on a removed disk.\<close>

fun vetoRemovedDisks :: "string list \<Rightarrow> string list \<Rightarrow> 'e error option" where
  "vetoRemovedDisks [] new = None"
| "vetoRemovedDisks (v1 # rest) new =
     (if \<not> disk_found v1 new False
      then Some (ErrorString
             (''disk '' @ v1
                @ '' found in state but not config (removal of disks is not supported)''))
      else vetoRemovedDisks rest new)"

text \<open>Lines 249 to 268: the extension with every disk of the new list the old one lacks.\<close>

fun addNewDisks ::
  "('w, 'e) helpers \<Rightarrow> HostDatastoreSystem \<Rightarrow> Datastore \<Rightarrow> string list \<Rightarrow> string list
     \<Rightarrow> ('w, 'e) state \<Rightarrow> 'e error option \<times> ('w, 'e) state" where
  "addNewDisks env dss ds [] old s = (None, s)"
| "addNewDisks env dss ds (v1 # rest) old s =
     (if \<not> disk_found v1 old False
      then
        (case diskSpecForExtend env dss ds v1 s of
           (Inl err, s1) \<Rightarrow> (Some (Foreign err), s1)
         | (Inr spec, s1) \<Rightarrow>
             (case extendVmfsDatastore env dss ds spec s1 of
                (Inl err, s2) \<Rightarrow> (Some (Foreign err), s2)
              | (Inr ds', s2) \<Rightarrow> addNewDisks env dss ds rest old s2))
      else addNewDisks env dss ds rest old s)"

text \<open>Lines 217 to 222 and 224 to 230.\<close>

definition renameOnUpdate ::
  "('w, 'e) helpers \<Rightarrow> ResourceData \<Rightarrow> Datastore \<Rightarrow> ('w, 'e) state
     \<Rightarrow> 'e error option \<times> ('w, 'e) state" where
  "renameOnUpdate env d ds s =
     (if old_name d \<noteq> name d
      then (case renameObject env (Reference ds) (name d) s of
              (Inl err, s1) \<Rightarrow> (Some (Foreign err), s1)
            | (Inr u, s1) \<Rightarrow> (None, s1))
      else (None, s))"

definition moveOnUpdate ::
  "('w, 'e) helpers \<Rightarrow> ResourceData \<Rightarrow> Datastore \<Rightarrow> ('w, 'e) state
     \<Rightarrow> 'e error option \<times> ('w, 'e) state" where
  "moveOnUpdate env d ds s =
     (if old_folder d \<noteq> folder d
      then (case moveDatastoreToFolder env ds (folder d) s of
              (Inl err, s1) \<Rightarrow>
                (Some (ErrorString
                   (''Could not move datastore to folder '' @ quote env (folder d) @ '': ''
                      @ errorText env err)), s1)
            | (Inr u, s1) \<Rightarrow> (None, s1))
      else (None, s))"

definition resourceVSphereVmfsDatastoreUpdate ::
  "('w, 'e) helpers \<Rightarrow> ResourceData \<Rightarrow> ('w, 'e) state
     \<Rightarrow> ('e, ResourceData) outcome \<times> ('w, 'e) state" where
  "resourceVSphereVmfsDatastoreUpdate env d s =
     (case hostDatastoreSystemFromHostSystemID env (host_system_id d) s of
        (Inl err, s1) \<Rightarrow>
          (Err (ErrorString (''error loading host datastore system: '' @ errorText env err)), s1)
      | (Inr dss, s1) \<Rightarrow>
          (case datastoreFromID env (Id_d d) s1 of
             (Inl err, s2) \<Rightarrow>
               (Err (ErrorString (''cannot find datastore: '' @ errorText env err)), s2)
           | (Inr ds, s2) \<Rightarrow>
               (case renameOnUpdate env d ds s2 of
                  (Some e, s3) \<Rightarrow> (Err e, s3)
                | (None, s3) \<Rightarrow>
                    (case moveOnUpdate env d ds s3 of
                       (Some e, s4) \<Rightarrow> (Err e, s4)
                     | (None, s4) \<Rightarrow>
                         (case vetoRemovedDisks (old_disks d) (disks d) of
                            Some e \<Rightarrow> (Err e, s4)
                          | None \<Rightarrow>
                              (case addNewDisks env dss ds (disks d) (old_disks d) s4 of
                                 (Some e, s5) \<Rightarrow> (Err e, s5)
                               | (None, s5) \<Rightarrow> resourceVSphereVmfsDatastoreRead env d s5))))))"

section \<open>Delete\<close>

definition retryDeletePending :: string where
  "retryDeletePending = ''retryDeletePending''"

definition retryDeleteCompleted :: string where
  "retryDeleteCompleted = ''retryDeleteCompleted''"

definition retryDeleteError :: string where
  "retryDeleteError = ''retryDeleteError''"

definition waitForDeletePending :: string where
  "waitForDeletePending = ''waitForDeletePending''"

definition waitForDeleteCompleted :: string where
  "waitForDeleteCompleted = ''waitForDeleteCompleted''"

definition waitForDeleteError :: string where
  "waitForDeleteError = ''waitForDeleteError''"

record ('w, 'e) StateChangeConf =
  Pending :: "string list"
  Target :: "string list"
  Refresh :: "('w, 'e) state \<Rightarrow> (string \<times> 'e option) \<times> ('w, 'e) state"

text \<open>
  Modelled from the spec: \<^verbatim>\<open>StateChangeConf.WaitForState\<close> belongs to the framework's
  \<^verbatim>\<open>helper/resource\<close> package, which is not among the sources. The specification
  describes it as a bounded polling state machine advanced by a tick function: each tick
  runs \<^verbatim>\<open>Refresh\<close>; an error of the tick stops the loop with that error; a target
  state ends it with success; a pending state leads to the next tick; and a loop still
  pending when the timeout elapses is a failure; a state that is neither pending nor a
  target, which the ticks of this file never produce, is a failure too. Delays and the
  clock are not modelled:
  \<open>ticks\<close> is the number of ticks that fit into \<^verbatim>\<open>Timeout\<close>. Both tick functions of
  this file return a non-nil result, so the waiter's handling of a nil result
  (\<^verbatim>\<open>NotFoundChecks\<close>) plays no part.
\<close>

fun WaitForState ::
  "('w, 'e) helpers \<Rightarrow> ('w, 'e) StateChangeConf \<Rightarrow> nat \<Rightarrow> string \<Rightarrow> ('w, 'e) state
     \<Rightarrow> 'e option \<times> ('w, 'e) state" where
  "WaitForState env conf 0 lastState s = (Some (timeoutError env lastState), s)"
| "WaitForState env conf (Suc ticks) lastState s =
     (case Refresh conf s of
        ((st, Some err), s1) \<Rightarrow> (Some err, s1)
      | ((st, None), s1) \<Rightarrow>
          if st \<in> set (Target conf) then (None, s1)
          else if st \<in> set (Pending conf) \<or> Pending conf = []
          then WaitForState env conf ticks st s1
          else (Some (unexpectedStateError env st), s1))"

text \<open>Lines 296 to 308.\<close>

definition deleteRetryFunc ::
  "('w, 'e) helpers \<Rightarrow> HostDatastoreSystem \<Rightarrow> Datastore \<Rightarrow> ('w, 'e) state
     \<Rightarrow> (string \<times> 'e option) \<times> ('w, 'e) state" where
  "deleteRetryFunc env dss ds s =
     (case removeDatastore env dss ds s of
        (Inl err, s1) \<Rightarrow>
          if isResourceInUseError env err
          then ((retryDeletePending, None), s1)
          else ((retryDeleteError, Some err), s1)
      | (Inr u, s1) \<Rightarrow> ((retryDeleteCompleted, None), s1))"

definition deleteRetry ::
  "('w, 'e) helpers \<Rightarrow> HostDatastoreSystem \<Rightarrow> Datastore \<Rightarrow> ('w, 'e) StateChangeConf" where
  "deleteRetry env dss ds =
     \<lparr>Pending = [retryDeletePending],
      Target = [retryDeleteCompleted],
      Refresh = deleteRetryFunc env dss ds\<rparr>"

text \<open>Lines 327 to 338.\<close>

definition waitForDeleteFunc ::
  "('w, 'e) helpers \<Rightarrow> string \<Rightarrow> ('w, 'e) state \<Rightarrow> (string \<times> 'e option) \<times> ('w, 'e) state" where
  "waitForDeleteFunc env ident s =
     (case datastoreFromID env ident s of
        (Inl err, s1) \<Rightarrow>
          if isManagedObjectNotFoundError env err
          then ((waitForDeleteCompleted, None), s1)
          else ((waitForDeleteError, Some err), s1)
      | (Inr ds, s1) \<Rightarrow> ((waitForDeletePending, None), s1))"

definition waitForDelete ::
  "('w, 'e) helpers \<Rightarrow> string \<Rightarrow> ('w, 'e) StateChangeConf" where
  "waitForDelete env ident =
     \<lparr>Pending = [waitForDeletePending],
      Target = [waitForDeleteCompleted],
      Refresh = waitForDeleteFunc env ident\<rparr>"

text \<open>
  The delete, with the number of ticks each of its two waiters can run before its
  timeout (30 seconds for the first, the default API timeout for the second).
\<close>

definition resourceVSphereVmfsDatastoreDelete ::
  "('w, 'e) helpers \<Rightarrow> nat \<Rightarrow> nat \<Rightarrow> ResourceData \<Rightarrow> ('w, 'e) state
     \<Rightarrow> 'e error option \<times> ('w, 'e) state" where
  "resourceVSphereVmfsDatastoreDelete env ticksA ticksB d s =
     (case hostDatastoreSystemFromHostSystemID env (host_system_id d) s of
        (Inl err, s1) \<Rightarrow>
          (Some (ErrorString
             (''error loading host datastore system: '' @ errorText env err)), s1)
      | (Inr dss, s1) \<Rightarrow>
          (case datastoreFromID env (Id_d d) s1 of
             (Inl err, s2) \<Rightarrow>
               (Some (ErrorString (''cannot find datastore: '' @ errorText env err)), s2)
           | (Inr ds, s2) \<Rightarrow>
               (case WaitForState env (deleteRetry env dss ds) ticksA [] s2 of
                  (Some err, s3) \<Rightarrow>
                    (Some (ErrorString
                       (''could not delete datastore: '' @ errorText env err)), s3)
                | (None, s3) \<Rightarrow>
                    (case WaitForState env (waitForDelete env (Id_d d)) ticksB [] s3 of
                       (Some err, s4) \<Rightarrow>
                         (Some (ErrorString
                            (''error waiting for datastore to delete: ''
                               @ errorText env err)), s4)
                     | (None, s4) \<Rightarrow> (None, s4)))))"

section \<open>A scripted endpoint\<close>

text \<open>
  A small endpoint with one datastore, \<open>ds-1\<close>, on which the theorems below are run.
  Its errors are their own texts. The knobs say which steps fail (the extension with
  some disks, the removal, the fetch of the properties) and what the properties hold;
  the world says whether
  the datastore exists, which extents it has, how many removals will still find it in
  use, and how many fetches after its removal will still see it.
\<close>

record fake_world =
  fw_present :: bool
  fw_extents :: "string list"
  fw_busy :: nat
  fw_stale :: nat

record knobs =
  k_unknown_disks :: "string list"
  k_unextendable :: "string list"
  k_remove_denied :: bool
  k_properties_denied :: bool
  k_fs_type :: string
  k_mounts :: "string list"
  k_info :: BaseDatastoreInfo

definition ds1 :: Datastore where
  "ds1 = \<lparr>Reference = ''ds-1'', InventoryPath = ''/dc1/datastore/ds-folder/vol''\<rparr>"

definition fake_datastoreFromID :: "string \<Rightarrow> fake_world \<Rightarrow> (string + Datastore) \<times> fake_world" where
  "fake_datastoreFromID ident w =
     (if ident = ''ds-1'' \<and> fw_present w then (Inr ds1, w)
      else if ident = ''ds-1'' \<and> 0 < fw_stale w then (Inr ds1, w\<lparr>fw_stale := fw_stale w - 1\<rparr>)
      else (Inl ''not found'', w))"

definition fake_removeDatastore ::
  "knobs \<Rightarrow> HostDatastoreSystem \<Rightarrow> Datastore \<Rightarrow> fake_world \<Rightarrow> (string + unit) \<times> fake_world" where
  "fake_removeDatastore k dss ds w =
     (if 0 < fw_busy w then (Inl ''resource in use'', w\<lparr>fw_busy := fw_busy w - 1\<rparr>)
      else if k_remove_denied k then (Inl ''permission denied'', w)
      else (Inr (), w\<lparr>fw_present := False, fw_extents := []\<rparr>))"

definition fake_diskSpecForExtend ::
  "knobs \<Rightarrow> HostDatastoreSystem \<Rightarrow> Datastore \<Rightarrow> string \<Rightarrow> fake_world
     \<Rightarrow> (string + VmfsDatastoreExtendSpec) \<times> fake_world" where
  "fake_diskSpecForExtend k dss ds disk w =
     (if disk \<in> set (k_unknown_disks k) then (Inl ''no such disk'', w) else (Inr disk, w))"

definition fake_extendVmfsDatastore ::
  "knobs \<Rightarrow> HostDatastoreSystem \<Rightarrow> Datastore \<Rightarrow> VmfsDatastoreExtendSpec \<Rightarrow> fake_world
     \<Rightarrow> (string + Datastore) \<times> fake_world" where
  "fake_extendVmfsDatastore k dss ds spec w =
     (if spec \<in> set (k_unextendable k) then (Inl ''extend refused'', w)
      else (Inr ds, w\<lparr>fw_extents := fw_extents w @ [spec]\<rparr>))"

definition fake_datastoreProperties ::
  "knobs \<Rightarrow> Datastore \<Rightarrow> fake_world \<Rightarrow> (string + DatastoreProps) \<times> fake_world" where
  "fake_datastoreProperties k ds w =
     (if k_properties_denied k then (Inl ''properties unavailable'', w)
      else
        (Inr \<lparr>Summary = \<lparr>Type = k_fs_type k\<rparr>,
              Host = map (\<lambda>h. \<lparr>Key = h\<rparr>) (k_mounts k),
              Info = k_info k\<rparr>, w))"

definition fake_SplitRelativeFolder :: "string \<Rightarrow> string + string" where
  "fake_SplitRelativeFolder p =
     (if take 15 p = ''/dc1/datastore/'' then Inr ''ds-folder'' else Inl ''no datastore root'')"

definition fake :: "knobs \<Rightarrow> (fake_world, string) helpers" where
  "fake k =
     \<lparr>ext_hostDatastoreSystemFromHostSystemID = (\<lambda>hsID w. (Inr (''dss-of-'' @ hsID), w)),
      ext_diskSpecForCreate =
        (\<lambda>dss disk w. (Inr \<lparr>Vmfs_VolumeName = [], Vmfs_Extent = disk\<rparr>, w)),
      ext_CreateVmfsDatastore =
        (\<lambda>dss spec w. (Inr ds1, w\<lparr>fw_present := True, fw_extents := [Vmfs_Extent spec]\<rparr>)),
      ext_moveDatastoreToFolderRelativeHostSystemID = (\<lambda>ds hsID fo w. (Inr (), w)),
      ext_removeDatastore = fake_removeDatastore k,
      ext_diskSpecForExtend = fake_diskSpecForExtend k,
      ext_extendVmfsDatastore = fake_extendVmfsDatastore k,
      ext_datastoreFromID = fake_datastoreFromID,
      ext_datastoreProperties = fake_datastoreProperties k,
      ext_renameObject = (\<lambda>ref nm w. (Inr (), w)),
      ext_moveDatastoreToFolder = (\<lambda>ds fo w. (Inr (), w)),
      pathIsEmpty = (\<lambda>p. p = [] \<or> p = ''/''),
      normalizeFolderPath = (\<lambda>p. p),
      SplitRelativeFolder = fake_SplitRelativeFolder,
      flattenDatastoreSummary = (\<lambda>d summary. Inr d),
      Set_disks = (\<lambda>d ds. Inr (d\<lparr>disks := ds\<rparr>)),
      isResourceInUseError = (\<lambda>e. e = ''resource in use''),
      isManagedObjectNotFoundError = (\<lambda>e. e = ''not found''),
      errorText = (\<lambda>e. e),
      quote = (\<lambda>x. [CHR 0x22] @ x @ [CHR 0x22]),
      timeoutError = (\<lambda>st. ''timeout while waiting, last state: '' @ st),
      unexpectedStateError = (\<lambda>st. ''unexpected state: '' @ st)\<rparr>"

definition healthy :: knobs where
  "healthy =
     \<lparr>k_unknown_disks = [], k_unextendable = [], k_remove_denied = False,
      k_properties_denied = False, k_fs_type = ''VMFS'', k_mounts = [''host-9''],
      k_info = VmfsDatastoreInfo (Some \<lparr>Extent = [\<lparr>DiskName = ''disk-a'', Partition = 1\<rparr>]\<rparr>)\<rparr>"

definition empty_world :: "(fake_world, string) state" where
  "empty_world =
     \<lparr>world = \<lparr>fw_present = False, fw_extents = [], fw_busy = 0, fw_stale = 0\<rparr>, calls = []\<rparr>"

definition one_datastore :: "(fake_world, string) state" where
  "one_datastore =
     \<lparr>world = \<lparr>fw_present = True, fw_extents = [''disk-a''], fw_busy = 0, fw_stale = 0\<rparr>,
      calls = []\<rparr>"

definition d0 :: ResourceData where
  "d0 =
     \<lparr>Id_d = ''ds-1'', host_system_id = ''host-9'', name = ''vol'', old_name = ''vol'',
      folder = [], old_folder = [], disks = [''disk-a''], old_disks = [''disk-a'']\<rparr>"

section \<open>Notions used in the statements\<close>

text \<open>A successful step of an extension: the resolution of a spec, or the extend call.\<close>

definition ext_ok :: "'e call \<Rightarrow> bool" where
  "ext_ok c \<longleftrightarrow>
     call_result c = None \<and>
     (call_prim c = DiskSpecForExtend \<or> call_prim c = ExtendVmfsDatastore)"

text \<open>A failed step of an extension.\<close>

definition ext_failed :: "'e call \<Rightarrow> bool" where
  "ext_failed c \<longleftrightarrow>
     call_result c \<noteq> None \<and>
     (call_prim c = DiskSpecForExtend \<or> call_prim c = ExtendVmfsDatastore)"

text \<open>
  The error the creation returns for an extension with \<open>disk\<close> that failed with
  \<open>err\<close> at the step \<open>p\<close>, when the removal that followed returned \<open>r\<close>.
\<close>

definition extension_error ::
  "('w, 'e) helpers \<Rightarrow> prim \<Rightarrow> string \<Rightarrow> 'e \<Rightarrow> 'e option \<Rightarrow> 'e error" where
  "extension_error env p disk err r =
     (case r of
        None \<Rightarrow>
          ErrorString
            ((if p = DiskSpecForExtend
              then ''error fetching datastore extend spec for disk ''
              else ''error extending datastore with disk '')
             @ quote env disk @ '': '' @ errorText env err)
      | Some remErr \<Rightarrow>
          ErrorString
            (formatVmfsDatastoreCreateRollbackErrorUpdate
               (quote env disk) (errorText env err) (errorText env remErr)))"

text \<open>
  A removal that failed because the datastore is in use, and a fetch that failed because
  the datastore was not found.
\<close>

definition busy :: "('w, 'e) helpers \<Rightarrow> 'e call \<Rightarrow> bool" where
  "busy env c = (case call_result c of Some e \<Rightarrow> isResourceInUseError env e | None \<Rightarrow> False)"

definition gone :: "('w, 'e) helpers \<Rightarrow> 'e call \<Rightarrow> bool" where
  "gone env c =
     (case call_result c of Some e \<Rightarrow> isManagedObjectNotFoundError env e | None \<Rightarrow> False)"

section \<open>Basic facts\<close>

lemmas fake_defs = fake_def healthy_def one_datastore_def empty_world_def d0_def ds1_def
  fake_datastoreFromID_def fake_removeDatastore_def fake_diskSpecForExtend_def
  fake_extendVmfsDatastore_def fake_datastoreProperties_def fake_SplitRelativeFolder_def

lemma remote_eq:
  "remote p args f s = (r, s') \<longleftrightarrow>
     r = fst (f (world s)) \<and>
     s' = \<lparr>world = snd (f (world s)),
           calls = calls s @ [Call p args (case r of Inl e \<Rightarrow> Some e | Inr x \<Rightarrow> None)]\<rparr>"
  by (auto simp: remote_def split: prod.splits)

lemma SplitN_colon_2_length: "length (SplitN_colon_2 x) = 2 \<longleftrightarrow> CHR '':'' \<in> set x"
  by (simp add: SplitN_colon_2_def)

lemma SplitN_colon_2_parts:
  "CHR '':'' \<in> set x \<Longrightarrow>
     SplitN_colon_2 x ! 0 = takeWhile (\<lambda>c. c \<noteq> CHR '':'') x \<and>
     SplitN_colon_2 x ! Suc 0 = tl (dropWhile (\<lambda>c. c \<noteq> CHR '':'') x)"
  by (simp add: SplitN_colon_2_def)

lemma host_found_iff: "host_found hsID ms b \<longleftrightarrow> b \<or> (\<exists>m \<in> set ms. Key m = hsID)"
  by (induction ms arbitrary: b) auto

section \<open>Import\<close>

text \<open>
  Claim C7, as amended. The import splits the identifier at its first colon. An
  identifier with no colon fails with the format error, and the state is untouched: no
  remote call is made. Every identifier with a colon passes the format check, whatever
  its segments are: the result is never the format error, the text before the first
  colon is fetched as the datastore, and an import that succeeds seeds that text as the
  identifier and everything after the first colon as the host.
\<close>

theorem import_format_check:
  "(CHR '':'' \<notin> set (Id_d d) \<longrightarrow>
      resourceVSphereVmfsDatastoreImport env d s =
        (Err (ErrorString ''please supply the ID in the following format: DATASTOREID:HOSTID''), s))
   \<and> (CHR '':'' \<in> set (Id_d d) \<longrightarrow>
        fst (resourceVSphereVmfsDatastoreImport env d s) \<noteq>
          Err (ErrorString ''please supply the ID in the following format: DATASTOREID:HOSTID'')
        \<and> (\<exists>r rest. calls (snd (resourceVSphereVmfsDatastoreImport env d s)) =
              calls s @ Call DatastoreFromID [takeWhile (\<lambda>c. c \<noteq> CHR '':'') (Id_d d)] r # rest)
        \<and> (\<forall>ds'. fst (resourceVSphereVmfsDatastoreImport env d s) = OK ds' \<longrightarrow>
              ds' = [d\<lparr>Id_d := takeWhile (\<lambda>c. c \<noteq> CHR '':'') (Id_d d),
                       host_system_id := tl (dropWhile (\<lambda>c. c \<noteq> CHR '':'') (Id_d d))\<rparr>]))"
proof (cases "CHR '':'' \<in> set (Id_d d)")
  case False
  then show ?thesis
    by (simp add: resourceVSphereVmfsDatastoreImport_def SplitN_colon_2_length)
next
  case True
  then show ?thesis
    by (auto simp: resourceVSphereVmfsDatastoreImport_def SplitN_colon_2_length
        SplitN_colon_2_parts Let_def datastoreFromID_def datastoreProperties_def remote_eq
        split: prod.splits sum.splits)
qed

text \<open>The two halves of C7's theorem on the scripted endpoint.\<close>

theorem import_format_check_witness:
  "resourceVSphereVmfsDatastoreImport (fake healthy) (d0\<lparr>Id_d := ''ds-1''\<rparr>) one_datastore =
     (Err (ErrorString ''please supply the ID in the following format: DATASTOREID:HOSTID''),
      one_datastore)
   \<and> fst (resourceVSphereVmfsDatastoreImport (fake healthy) (d0\<lparr>Id_d := ''ds-1:host-9''\<rparr>)
          one_datastore) \<noteq>
       Err (ErrorString ''please supply the ID in the following format: DATASTOREID:HOSTID'')"
  using import_format_check [of "d0\<lparr>Id_d := ''ds-1''\<rparr>" "fake healthy" one_datastore]
    import_format_check [of "d0\<lparr>Id_d := ''ds-1:host-9''\<rparr>" "fake healthy" one_datastore]
  by (simp add: d0_def)

text \<open>
  C7 as it is written fails. The identifier \<open>ds-1:\<close> has an empty host segment: it is
  not refused for its format, the datastore is fetched remotely, and the error is the
  one about the host not being mounted. The identifier \<open>ds-1:host-9:x\<close> has three
  colon-separated segments: it is imported, with host \<open>host-9:x\<close>.
\<close>

theorem import_shape_counterexample:
  "resourceVSphereVmfsDatastoreImport (fake healthy) (d0\<lparr>Id_d := ''ds-1:''\<rparr>) one_datastore =
     (Err (ErrorString
        (''configured host_system_id '' @ [CHR 0x22, CHR 0x22]
           @ '' not found as a mounted host on datastore'')),
      one_datastore\<lparr>calls := [Call DatastoreFromID [''ds-1''] None,
                              Call DatastoreProperties [''ds-1''] None]\<rparr>)
   \<and> resourceVSphereVmfsDatastoreImport (fake (healthy\<lparr>k_mounts := [''host-9:x'']\<rparr>))
        (d0\<lparr>Id_d := ''ds-1:host-9:x''\<rparr>) one_datastore =
     (OK [d0\<lparr>Id_d := ''ds-1'', host_system_id := ''host-9:x''\<rparr>],
      one_datastore\<lparr>calls := [Call DatastoreFromID [''ds-1''] None,
                              Call DatastoreProperties [''ds-1''] None]\<rparr>)"
  by code_simp

text \<open>
  Claim C8. For the identifier \<open>ds-1:host-9\<close>, once the datastore \<open>ds-1\<close> and its
  properties have been fetched: a summary type other than VMFS fails the import with the
  error that the datastore is not a VMFS datastore; otherwise a host-mount list with no
  key \<open>host-9\<close> fails it with the error that the host is not a mounted host; otherwise
  the import returns the resource data with identifier \<open>ds-1\<close> and host \<open>host-9\<close>.
\<close>

theorem import_ds1_host9:
  assumes "Id_d d = ''ds-1:host-9''"
    and "datastoreFromID env ''ds-1'' s = (Inr ds, s1)"
    and "datastoreProperties env ds s1 = (Inr props, s2)"
  shows "resourceVSphereVmfsDatastoreImport env d s =
     (if Type (Summary props) \<noteq> HostFileSystemVolumeFileSystemTypeVMFS
      then Err (ErrorString (''datastore ID '' @ quote env ''ds-1'' @ '' is not a VMFS datastore''))
      else if ''host-9'' \<notin> Key ` set (Host props)
      then Err (ErrorString
             (''configured host_system_id '' @ quote env ''host-9''
                @ '' not found as a mounted host on datastore''))
      else OK [d\<lparr>Id_d := ''ds-1'', host_system_id := ''host-9''\<rparr>],
      s2)"
proof -
  have ids: "SplitN_colon_2 (Id_d d) = [''ds-1'', ''host-9'']"
    using assms(1) by (simp add: SplitN_colon_2_def)
  have found: "host_found ''host-9'' (Host props) False \<longleftrightarrow> ''host-9'' \<in> Key ` set (Host props)"
    by (force simp: host_found_iff)
  show ?thesis
    using assms(2,3)
    by (simp add: resourceVSphereVmfsDatastoreImport_def ids found
        HostFileSystemVolumeFileSystemTypeVMFS_def)
qed

text \<open>
  C8's theorem on the scripted endpoint, once for each of its three cases: a datastore
  of type NFS, a datastore mounted on \<open>host-3\<close> only, and a VMFS datastore mounted on
  \<open>host-9\<close>.
\<close>

theorem import_ds1_host9_witness:
  "resourceVSphereVmfsDatastoreImport (fake (healthy\<lparr>k_fs_type := ''NFS''\<rparr>))
      (d0\<lparr>Id_d := ''ds-1:host-9''\<rparr>) one_datastore =
     (Err (ErrorString (''datastore ID '' @ [CHR 0x22] @ ''ds-1'' @ [CHR 0x22]
             @ '' is not a VMFS datastore'')),
      one_datastore\<lparr>calls := [Call DatastoreFromID [''ds-1''] None,
                              Call DatastoreProperties [''ds-1''] None]\<rparr>)
   \<and> resourceVSphereVmfsDatastoreImport (fake (healthy\<lparr>k_mounts := [''host-3'']\<rparr>))
      (d0\<lparr>Id_d := ''ds-1:host-9''\<rparr>) one_datastore =
     (Err (ErrorString (''configured host_system_id '' @ [CHR 0x22] @ ''host-9'' @ [CHR 0x22]
             @ '' not found as a mounted host on datastore'')),
      one_datastore\<lparr>calls := [Call DatastoreFromID [''ds-1''] None,
                              Call DatastoreProperties [''ds-1''] None]\<rparr>)
   \<and> resourceVSphereVmfsDatastoreImport (fake healthy)
      (d0\<lparr>Id_d := ''ds-1:host-9'', host_system_id := []\<rparr>) one_datastore =
     (OK [d0\<lparr>Id_d := ''ds-1'', host_system_id := ''host-9''\<rparr>],
      one_datastore\<lparr>calls := [Call DatastoreFromID [''ds-1''] None,
                              Call DatastoreProperties [''ds-1''] None]\<rparr>)"
proof -
  let ?s1 = "one_datastore\<lparr>calls := [Call DatastoreFromID [''ds-1''] None]\<rparr>"
  let ?s2 = "one_datastore\<lparr>calls := [Call DatastoreFromID [''ds-1''] None,
                              Call DatastoreProperties [''ds-1''] None]\<rparr>"
  have a: "datastoreFromID (fake k) ''ds-1'' one_datastore = (Inr ds1, ?s1)" for k
    by (simp add: datastoreFromID_def remote_def fake_defs)
  have b: "\<not> k_properties_denied k \<Longrightarrow> datastoreProperties (fake k) ds1 ?s1 =
      (Inr \<lparr>Summary = \<lparr>Type = k_fs_type k\<rparr>, Host = map (\<lambda>h. \<lparr>Key = h\<rparr>) (k_mounts k),
            Info = k_info k\<rparr>, ?s2)" for k
    by (simp add: datastoreProperties_def remote_def fake_defs)
  show ?thesis
    using import_ds1_host9 [OF _ a b, of "d0\<lparr>Id_d := ''ds-1:host-9''\<rparr>" "healthy\<lparr>k_fs_type := ''NFS''\<rparr>"]
      import_ds1_host9 [OF _ a b, of "d0\<lparr>Id_d := ''ds-1:host-9''\<rparr>" "healthy\<lparr>k_mounts := [''host-3'']\<rparr>"]
      import_ds1_host9 [OF _ a b, of "d0\<lparr>Id_d := ''ds-1:host-9'', host_system_id := []\<rparr>" healthy]
    by (simp add: fake_defs HostFileSystemVolumeFileSystemTypeVMFS_def)
qed

section \<open>Create\<close>

subsection \<open>The calls of a run\<close>

lemma sum_unit_result:
  fixes x :: "'e + unit"
  shows "x = (case (case x of Inl e \<Rightarrow> Some e | Inr u \<Rightarrow> None) of None \<Rightarrow> Inr () | Some e \<Rightarrow> Inl e)"
  by (cases x) simp_all

lemma removeDatastore_run:
  assumes "removeDatastore env dss ds s = (r, s')"
  shows "\<exists>ro. calls s' = calls s @ [Call RemoveDatastore [dss, Reference ds] ro]
           \<and> r = (case ro of None \<Rightarrow> Inr () | Some remErr \<Rightarrow> Inl remErr)
           \<and> fst (ext_removeDatastore env dss ds (world s)) = r
           \<and> world s' = snd (ext_removeDatastore env dss ds (world s))"
  using assms sum_unit_result [of r]
  by (auto simp: removeDatastore_def remote_eq)

lemma extendOnCreate_ok:
  "extendOnCreate env dss ds rest s = (None, s') \<Longrightarrow>
     \<exists>X. calls s' = calls s @ X \<and> (\<forall>c \<in> set X. ext_ok c)"
proof (induction rest arbitrary: s)
  case Nil
  then show ?case by simp
next
  case (Cons disk rest)
  from Cons.prems obtain spec s1 ds' s2 where
    a: "diskSpecForExtend env dss ds disk s = (Inr spec, s1)"
    and b: "extendVmfsDatastore env dss ds spec s1 = (Inr ds', s2)"
    and c: "extendOnCreate env dss ds rest s2 = (None, s')"
    by (auto split: prod.splits sum.splits)
  from Cons.IH [OF c] obtain X where X: "calls s' = calls s2 @ X" "\<forall>c \<in> set X. ext_ok c"
    by blast
  have "calls s2 = calls s @ [Call DiskSpecForExtend [dss, Reference ds, disk] None,
                              Call ExtendVmfsDatastore [dss, Reference ds, spec] None]"
    using a b by (auto simp: diskSpecForExtend_def extendVmfsDatastore_def remote_eq)
  with X show ?case
    by (intro exI [of _ "[Call DiskSpecForExtend [dss, Reference ds, disk] None,
                          Call ExtendVmfsDatastore [dss, Reference ds, spec] None] @ X"])
       (auto simp: ext_ok_def)
qed

lemma extendOnCreate_failed:
  "extendOnCreate env dss ds rest s = (Some e, s') \<Longrightarrow>
     \<exists>pre p args err r disk w.
        calls s' = calls s @ pre @ [Call p args (Some err), Call RemoveDatastore [dss, Reference ds] r]
        \<and> (\<forall>c \<in> set pre. ext_ok c)
        \<and> disk \<in> set rest
        \<and> ((p = DiskSpecForExtend \<and> args = [dss, Reference ds, disk])
           \<or> (p = ExtendVmfsDatastore \<and> pre \<noteq> []
               \<and> last pre = Call DiskSpecForExtend [dss, Reference ds, disk] None))
        \<and> fst (ext_removeDatastore env dss ds w) = (case r of None \<Rightarrow> Inr () | Some remErr \<Rightarrow> Inl remErr)
        \<and> world s' = snd (ext_removeDatastore env dss ds w)
        \<and> e = extension_error env p disk err r"
proof (induction rest arbitrary: s)
  case Nil
  then show ?case by simp
next
  case (Cons disk rest)
  obtain r1 s1 where spec: "diskSpecForExtend env dss ds disk s = (r1, s1)"
    by (cases "diskSpecForExtend env dss ds disk s")
  have c1: "calls s1 = calls s @ [Call DiskSpecForExtend [dss, Reference ds, disk]
                (case r1 of Inl e \<Rightarrow> Some e | Inr x \<Rightarrow> None)]"
    using spec by (simp add: diskSpecForExtend_def remote_eq)
  show ?case
  proof (cases r1)
    case (Inl err)
    obtain r2 s2 where rem: "removeDatastore env dss ds s1 = (r2, s2)"
      by (cases "removeDatastore env dss ds s1")
    from removeDatastore_run [OF rem] obtain ro where
      c2: "calls s2 = calls s1 @ [Call RemoveDatastore [dss, Reference ds] ro]"
      and r2: "r2 = (case ro of None \<Rightarrow> Inr () | Some remErr \<Rightarrow> Inl remErr)"
      and f2: "fst (ext_removeDatastore env dss ds (world s1)) = r2"
      and w2: "world s2 = snd (ext_removeDatastore env dss ds (world s1))"
      by blast
    have res: "e = extension_error env DiskSpecForExtend disk err ro" and s': "s' = s2"
      using Cons.prems spec Inl rem r2
      by (auto simp: extension_error_def split: sum.splits option.splits)
    show ?thesis
      by (rule exI [of _ "[]"], rule exI [of _ DiskSpecForExtend],
          rule exI [of _ "[dss, Reference ds, disk]"], rule exI [of _ err],
          rule exI [of _ ro], rule exI [of _ disk], rule exI [of _ "world s1"])
         (simp add: c1 c2 Inl res s' w2 f2 r2)
  next
    case (Inr spec')
    obtain r2 s2 where ext: "extendVmfsDatastore env dss ds spec' s1 = (r2, s2)"
      by (cases "extendVmfsDatastore env dss ds spec' s1")
    have c2: "calls s2 = calls s1 @ [Call ExtendVmfsDatastore [dss, Reference ds, spec']
                (case r2 of Inl e \<Rightarrow> Some e | Inr x \<Rightarrow> None)]"
      using ext by (simp add: extendVmfsDatastore_def remote_eq)
    show ?thesis
    proof (cases r2)
      case (Inl err)
      obtain r3 s3 where rem: "removeDatastore env dss ds s2 = (r3, s3)"
        by (cases "removeDatastore env dss ds s2")
      from removeDatastore_run [OF rem] obtain ro where
        c3: "calls s3 = calls s2 @ [Call RemoveDatastore [dss, Reference ds] ro]"
        and r3: "r3 = (case ro of None \<Rightarrow> Inr () | Some remErr \<Rightarrow> Inl remErr)"
        and f3: "fst (ext_removeDatastore env dss ds (world s2)) = r3"
        and w3: "world s3 = snd (ext_removeDatastore env dss ds (world s2))"
        by blast
      have res: "e = extension_error env ExtendVmfsDatastore disk err ro" and s': "s' = s3"
        using Cons.prems spec \<open>r1 = Inr spec'\<close> ext Inl rem r3
        by (auto simp: extension_error_def split: sum.splits option.splits)
      show ?thesis
        by (rule exI [of _ "[Call DiskSpecForExtend [dss, Reference ds, disk] None]"],
            rule exI [of _ ExtendVmfsDatastore],
            rule exI [of _ "[dss, Reference ds, spec']"], rule exI [of _ err],
            rule exI [of _ ro], rule exI [of _ disk], rule exI [of _ "world s2"])
           (simp add: c1 c2 c3 Inl \<open>r1 = Inr spec'\<close> res s' w3 f3 r3 ext_ok_def)
    next
      case (Inr ds')
      have rec: "extendOnCreate env dss ds rest s2 = (Some e, s')"
        using Cons.prems spec \<open>r1 = Inr spec'\<close> ext Inr by simp
      let ?two = "[Call DiskSpecForExtend [dss, Reference ds, disk] None,
                   Call ExtendVmfsDatastore [dss, Reference ds, spec'] None]"
      have c12: "calls s2 = calls s @ ?two"
        using c1 c2 Inr \<open>r1 = Inr spec'\<close> by simp
      from Cons.IH [OF rec] obtain pre p args err r disk' w where
        X: "calls s' = calls s2 @ pre @ [Call p args (Some err), Call RemoveDatastore [dss, Reference ds] r]"
        and pre: "\<forall>c \<in> set pre. ext_ok c"
        and dk: "disk' \<in> set rest"
        and shape: "(p = DiskSpecForExtend \<and> args = [dss, Reference ds, disk'])
                  \<or> (p = ExtendVmfsDatastore \<and> pre \<noteq> []
                      \<and> last pre = Call DiskSpecForExtend [dss, Reference ds, disk'] None)"
        and rm: "fst (ext_removeDatastore env dss ds w) = (case r of None \<Rightarrow> Inr () | Some remErr \<Rightarrow> Inl remErr)"
        and w: "world s' = snd (ext_removeDatastore env dss ds w)"
        and e: "e = extension_error env p disk' err r"
        by blast
      have shape': "(p = DiskSpecForExtend \<and> args = [dss, Reference ds, disk'])
                  \<or> (p = ExtendVmfsDatastore \<and> ?two @ pre \<noteq> []
                      \<and> last (?two @ pre) = Call DiskSpecForExtend [dss, Reference ds, disk'] None)"
        using shape by auto
      have pre': "\<forall>c \<in> set (?two @ pre). ext_ok c"
        using pre by (auto simp: ext_ok_def)
      have cs: "calls s' = calls s @ (?two @ pre) @ [Call p args (Some err), Call RemoveDatastore [dss, Reference ds] r]"
        using X c12 by simp
      have dk': "disk' \<in> set (disk # rest)"
        using dk by simp
      show ?thesis
        using cs pre' dk' shape' rm w e by blast
    qed
  qed
qed

lemma moveOnCreate_run:
  "moveOnCreate env dss ds hsID fo s = (res, s') \<Longrightarrow>
     \<exists>X. calls s' = calls s @ X
       \<and> (\<forall>c \<in> set X. call_prim c = MoveDatastoreToFolderRelativeHostSystemID
                        \<or> call_prim c = RemoveDatastore)
       \<and> (res = None \<longrightarrow> (\<forall>c \<in> set X. call_prim c = MoveDatastoreToFolderRelativeHostSystemID))"
  by (auto simp: moveOnCreate_def moveDatastoreToFolderRelativeHostSystemID_def
      removeDatastore_def remote_eq split: if_splits prod.splits sum.splits)

lemma Read_run:
  "resourceVSphereVmfsDatastoreRead env d s = (res, s') \<Longrightarrow>
     \<exists>X. calls s' = calls s @ X
       \<and> (\<forall>c \<in> set X. call_prim c = DatastoreFromID \<or> call_prim c = DatastoreProperties)"
  by (auto simp: resourceVSphereVmfsDatastoreRead_def datastoreFromID_def
      datastoreProperties_def remote_eq Let_def
      split: prod.splits sum.splits BaseDatastoreInfo.splits option.splits)

lemma Create_run:
  assumes run: "resourceVSphereVmfsDatastoreCreate env d s = (res, s')"
  shows "(\<exists>X. calls s' = calls s @ X \<and> (\<forall>c \<in> set X. \<not> ext_failed c))
       \<or> (\<exists>dss ds P disk0 rest e s4.
             disks d = disk0 # rest \<and> calls s4 = calls s @ P
             \<and> (\<forall>c \<in> set P. call_prim c \<noteq> RemoveDatastore \<and> \<not> ext_failed c)
             \<and> extendOnCreate env dss ds rest s4 = (Some e, s') \<and> res = Err e)"
proof -
  obtain r1 s1 where h1: "hostDatastoreSystemFromHostSystemID env (host_system_id d) s = (r1, s1)"
    by (cases "hostDatastoreSystemFromHostSystemID env (host_system_id d) s")
  have c1: "calls s1 = calls s @ [Call HostDatastoreSystemFromHostSystemID [host_system_id d]
              (case r1 of Inl e \<Rightarrow> Some e | Inr x \<Rightarrow> None)]"
    using h1 by (simp add: hostDatastoreSystemFromHostSystemID_def remote_eq)
  show ?thesis
  proof (cases r1)
    case (Inl err)
    then have "s' = s1" using run h1 by (simp add: resourceVSphereVmfsDatastoreCreate_def)
    then show ?thesis using c1 by (auto simp: ext_failed_def)
  next
    case dss: (Inr dss)
    show ?thesis
    proof (cases "disks d")
      case Nil
      then have "s' = s1" using run h1 dss by (simp add: resourceVSphereVmfsDatastoreCreate_def)
      then show ?thesis using c1 by (auto simp: ext_failed_def)
    next
      case (Cons disk0 rest)
      obtain r2 s2 where h2: "diskSpecForCreate env dss disk0 s1 = (r2, s2)"
        by (cases "diskSpecForCreate env dss disk0 s1")
      have c2: "calls s2 = calls s1 @ [Call DiskSpecForCreate [dss, disk0]
                  (case r2 of Inl e \<Rightarrow> Some e | Inr x \<Rightarrow> None)]"
        using h2 by (simp add: diskSpecForCreate_def remote_eq)
      show ?thesis
      proof (cases r2)
        case (Inl err)
        then have "s' = s2"
          using run h1 dss Cons h2 by (simp add: resourceVSphereVmfsDatastoreCreate_def)
        then show ?thesis using c1 c2 by (auto simp: ext_failed_def)
      next
        case spec: (Inr spec)
        let ?spec = "spec\<lparr>Vmfs_VolumeName := name d\<rparr>"
        obtain r3 s3 where h3: "CreateVmfsDatastore_call env dss ?spec s2 = (r3, s3)"
          by (cases "CreateVmfsDatastore_call env dss ?spec s2")
        have c3: "calls s3 = calls s2 @ [Call CreateVmfsDatastore
                    [dss, Vmfs_VolumeName ?spec, Vmfs_Extent ?spec]
                    (case r3 of Inl e \<Rightarrow> Some e | Inr x \<Rightarrow> None)]"
          using h3 by (simp add: CreateVmfsDatastore_call_def remote_eq)
        show ?thesis
        proof (cases r3)
          case (Inl err)
          then have "s' = s3"
            using run h1 dss Cons h2 spec h3
            by (simp add: resourceVSphereVmfsDatastoreCreate_def)
          then show ?thesis using c1 c2 c3 by (auto simp: ext_failed_def)
        next
          case ds: (Inr ds)
          obtain r4 s4 where h4: "moveOnCreate env dss ds (host_system_id d) (folder d) s3 = (r4, s4)"
            by (cases "moveOnCreate env dss ds (host_system_id d) (folder d) s3")
          from moveOnCreate_run [OF h4] obtain X4 where
            c4: "calls s4 = calls s3 @ X4"
            and p4: "\<forall>c \<in> set X4. call_prim c = MoveDatastoreToFolderRelativeHostSystemID
                        \<or> call_prim c = RemoveDatastore"
            and n4: "r4 = None \<longrightarrow> (\<forall>c \<in> set X4. call_prim c = MoveDatastoreToFolderRelativeHostSystemID)"
            by blast
          let ?P = "[Call HostDatastoreSystemFromHostSystemID [host_system_id d] None,
                     Call DiskSpecForCreate [dss, disk0] None,
                     Call CreateVmfsDatastore [dss, Vmfs_VolumeName ?spec, Vmfs_Extent ?spec] None] @ X4"
          have cP: "calls s4 = calls s @ ?P"
            using c1 c2 c3 c4 dss spec ds by simp
          have P_ext: "\<forall>c \<in> set ?P. \<not> ext_failed c"
            using p4 by (auto simp: ext_failed_def)
          show ?thesis
          proof (cases r4)
            case (Some e)
            then have "s' = s4"
              using run h1 dss Cons h2 spec h3 ds h4
              by (simp add: resourceVSphereVmfsDatastoreCreate_def)
            then show ?thesis using cP P_ext by blast
          next
            case None
            have P_rem: "\<forall>c \<in> set ?P. call_prim c \<noteq> RemoveDatastore"
              using n4 None by auto
            obtain r5 s5 where h5: "extendOnCreate env dss ds rest s4 = (r5, s5)"
              by (cases "extendOnCreate env dss ds rest s4")
            show ?thesis
            proof (cases r5)
              case (Some e)
              then have "s' = s5" "res = Err e"
                using run h1 dss Cons h2 spec h3 ds h4 None h5
                by (simp_all add: resourceVSphereVmfsDatastoreCreate_def)
              then show ?thesis
                using Cons cP P_ext P_rem h5 Some by blast
            next
              case ok: None
              from extendOnCreate_ok [OF h5 [unfolded ok]] obtain X5 where
                c5: "calls s5 = calls s4 @ X5" and p5: "\<forall>c \<in> set X5. ext_ok c"
                by blast
              have rd: "resourceVSphereVmfsDatastoreRead env (d\<lparr>Id_d := Reference ds\<rparr>) s5 = (res, s')"
                using run h1 dss Cons h2 spec h3 ds h4 None h5 ok
                by (simp add: resourceVSphereVmfsDatastoreCreate_def)
              from Read_run [OF rd] obtain X6 where
                c6: "calls s' = calls s5 @ X6"
                and p6: "\<forall>c \<in> set X6. call_prim c = DatastoreFromID \<or> call_prim c = DatastoreProperties"
                by blast
              have "calls s' = calls s @ (?P @ X5 @ X6)"
                using cP c5 c6 by simp
              moreover have "\<forall>c \<in> set (?P @ X5 @ X6). \<not> ext_failed c"
                using P_ext p5 p6 by (auto simp: ext_failed_def ext_ok_def)
              ultimately show ?thesis by blast
            qed
          qed
        qed
      qed
    qed
  qed
qed

subsection \<open>A failed extension\<close>

text \<open>
  Claim C1. Take any run of the creation in which a step of an extension failed: the
  resolution of the extend spec or the extend call returned the error \<open>err\<close>. Then
  that step belongs to a disk after the first one, it is followed by one removal of the
  created datastore, the only removal of the run and its last call, and there are two
  outcomes. If the removal succeeded, the error returned names the disk and the
  extension error, and the datastore is gone (\<open>present\<close> is any observation of the
  endpoint that a successful removal falsifies). If the removal failed with \<open>remErr\<close>,
  the error returned is the dangling-resource text, which holds the disk, the extension
  error and the removal error, and tells that the datastore has to be removed manually.
\<close>

theorem create_extension_failure:
  assumes run: "resourceVSphereVmfsDatastoreCreate env d s = (res, s')"
    and failed: "Call p args (Some err) \<in> set (drop (length (calls s)) (calls s'))"
    and ext: "p = DiskSpecForExtend \<or> p = ExtendVmfsDatastore"
    and contract: "\<forall>dss ds w. fst (ext_removeDatastore env dss ds w) = Inr () \<longrightarrow>
                     \<not> present (snd (ext_removeDatastore env dss ds w)) (Reference ds)"
  shows "\<exists>pre dss ref disk r.
      calls s' = calls s @ pre @ [Call p args (Some err), Call RemoveDatastore [dss, ref] r]
    \<and> (\<forall>c \<in> set pre. call_prim c \<noteq> RemoveDatastore)
    \<and> disk \<in> set (tl (disks d))
    \<and> ((p = DiskSpecForExtend \<and> args = [dss, ref, disk])
       \<or> (p = ExtendVmfsDatastore \<and> pre \<noteq> []
           \<and> last pre = Call DiskSpecForExtend [dss, ref, disk] None))
    \<and> (r = None \<longrightarrow>
          res = Err (ErrorString
                  ((if p = DiskSpecForExtend
                    then ''error fetching datastore extend spec for disk ''
                    else ''error extending datastore with disk '')
                   @ quote env disk @ '': '' @ errorText env err))
          \<and> \<not> present (world s') ref)
    \<and> (\<forall>remErr. r = Some remErr \<longrightarrow>
          res = Err (ErrorString
                  (nl @ ''WARNING: Dangling resource!'' @ nl
                   @ ''There was an error extending your datastore with disk: ''
                   @ quote env disk @ '':'' @ nl
                   @ errorText env err @ nl
                   @ ''Additionally, there was an error removing the created datastore:'' @ nl
                   @ errorText env remErr @ nl
                   @ ''You will need to remove this datastore manually before trying again.''
                   @ nl)))"
proof -
  have bad: "ext_failed (Call p args (Some err))"
    using ext by (auto simp: ext_failed_def)
  from Create_run [OF run] show ?thesis
  proof (elim disjE exE conjE)
    fix X
    assume "calls s' = calls s @ X" and "\<forall>c \<in> set X. \<not> ext_failed c"
    with failed bad show ?thesis by auto
  next
    fix dss ds P disk0 rest e s4
    assume dk: "disks d = disk0 # rest"
      and cP: "calls s4 = calls s @ P"
      and P: "\<forall>c \<in> set P. call_prim c \<noteq> RemoveDatastore \<and> \<not> ext_failed c"
      and loop: "extendOnCreate env dss ds rest s4 = (Some e, s')"
      and res: "res = Err e"
    from extendOnCreate_failed [OF loop] obtain pre p' args' err' r disk w where
      X: "calls s' = calls s4 @ pre @ [Call p' args' (Some err'), Call RemoveDatastore [dss, Reference ds] r]"
      and pre: "\<forall>c \<in> set pre. ext_ok c"
      and disk: "disk \<in> set rest"
      and shape: "(p' = DiskSpecForExtend \<and> args' = [dss, Reference ds, disk])
                \<or> (p' = ExtendVmfsDatastore \<and> pre \<noteq> []
                    \<and> last pre = Call DiskSpecForExtend [dss, Reference ds, disk] None)"
      and rm: "fst (ext_removeDatastore env dss ds w) = (case r of None \<Rightarrow> Inr () | Some remErr \<Rightarrow> Inl remErr)"
      and w: "world s' = snd (ext_removeDatastore env dss ds w)"
      and e: "e = extension_error env p' disk err' r"
      by blast
    have all: "calls s' = calls s @ (P @ pre) @ [Call p' args' (Some err'), Call RemoveDatastore [dss, Reference ds] r]"
      using X cP by simp
    have "Call p args (Some err) \<in> set (P @ pre @ [Call p' args' (Some err'), Call RemoveDatastore [dss, Reference ds] r])"
      using failed all by simp
    moreover have "Call p args (Some err) \<notin> set P"
      using P bad by blast
    moreover have "Call p args (Some err) \<notin> set pre"
      using pre by (auto simp: ext_ok_def)
    moreover have "Call p args (Some err) \<noteq> Call RemoveDatastore [dss, Reference ds] r"
      using ext by auto
    ultimately have same: "p' = p" "args' = args" "err' = err"
      by auto
    have norem: "\<forall>c \<in> set (P @ pre). call_prim c \<noteq> RemoveDatastore"
      using P pre by (auto simp: ext_ok_def)
    have shape': "(p = DiskSpecForExtend \<and> args = [dss, Reference ds, disk])
                \<or> (p = ExtendVmfsDatastore \<and> P @ pre \<noteq> []
                    \<and> last (P @ pre) = Call DiskSpecForExtend [dss, Reference ds, disk] None)"
      using shape same by auto
    have dk': "disk \<in> set (tl (disks d))"
      using disk dk by simp
    have gone: "r = None \<longrightarrow> \<not> present (world s') (Reference ds)"
      using contract rm w by auto
    have ok: "r = None \<longrightarrow>
          res = Err (ErrorString
                  ((if p = DiskSpecForExtend
                    then ''error fetching datastore extend spec for disk ''
                    else ''error extending datastore with disk '')
                   @ quote env disk @ '': '' @ errorText env err))"
      using res e same by (simp add: extension_error_def)
    have dangling: "\<forall>remErr. r = Some remErr \<longrightarrow>
          res = Err (ErrorString
                  (nl @ ''WARNING: Dangling resource!'' @ nl
                   @ ''There was an error extending your datastore with disk: ''
                   @ quote env disk @ '':'' @ nl
                   @ errorText env err @ nl
                   @ ''Additionally, there was an error removing the created datastore:'' @ nl
                   @ errorText env remErr @ nl
                   @ ''You will need to remove this datastore manually before trying again.''
                   @ nl))"
      using res e same
      by (simp add: extension_error_def formatVmfsDatastoreCreateRollbackErrorUpdate_def)
    show ?thesis
      apply (rule exI [of _ "P @ pre"], rule exI [of _ dss], rule exI [of _ "Reference ds"],
             rule exI [of _ disk], rule exI [of _ r])
      using all [unfolded same] norem dk' shape' gone ok dangling
      apply (intro conjI)
           apply assumption+
       apply blast
      apply assumption
      done
  qed
qed

text \<open>
  C1's theorem on the scripted endpoint: three disks, the extend call refused for the
  second one, the removal granted.
\<close>

theorem create_extension_failure_witness:
  "resourceVSphereVmfsDatastoreCreate (fake (healthy\<lparr>k_unextendable := [''disk-b'']\<rparr>))
      (d0\<lparr>disks := [''disk-a'', ''disk-b'', ''disk-c'']\<rparr>) empty_world =
     (Err (ErrorString (''error extending datastore with disk '' @ [CHR 0x22] @ ''disk-b''
             @ [CHR 0x22] @ '': extend refused'')),
      \<lparr>world = \<lparr>fw_present = False, fw_extents = [], fw_busy = 0, fw_stale = 0\<rparr>,
       calls = [Call HostDatastoreSystemFromHostSystemID [''host-9''] None,
                Call DiskSpecForCreate [''dss-of-host-9'', ''disk-a''] None,
                Call CreateVmfsDatastore [''dss-of-host-9'', ''vol'', ''disk-a''] None,
                Call DiskSpecForExtend [''dss-of-host-9'', ''ds-1'', ''disk-b''] None,
                Call ExtendVmfsDatastore [''dss-of-host-9'', ''ds-1'', ''disk-b'']
                  (Some ''extend refused''),
                Call RemoveDatastore [''dss-of-host-9'', ''ds-1''] None]\<rparr>)
   \<and> (\<exists>pre dss ref disk r.
        [Call HostDatastoreSystemFromHostSystemID [''host-9''] None,
         Call DiskSpecForCreate [''dss-of-host-9'', ''disk-a''] None,
         Call CreateVmfsDatastore [''dss-of-host-9'', ''vol'', ''disk-a''] None,
         Call DiskSpecForExtend [''dss-of-host-9'', ''ds-1'', ''disk-b''] None,
         Call ExtendVmfsDatastore [''dss-of-host-9'', ''ds-1'', ''disk-b'']
           (Some ''extend refused''),
         Call RemoveDatastore [''dss-of-host-9'', ''ds-1''] None]
        = pre @ [Call ExtendVmfsDatastore [''dss-of-host-9'', ''ds-1'', ''disk-b'']
                   (Some ''extend refused''),
                 Call RemoveDatastore [dss, ref] r]
        \<and> disk \<in> set [''disk-b'', ''disk-c'']
        \<and> last pre = Call DiskSpecForExtend [dss, ref, disk] None
        \<and> r = None \<and> ref = ''ds-1'' \<and> disk = ''disk-b'')"
proof -
  let ?env = "fake (healthy\<lparr>k_unextendable := [''disk-b'']\<rparr>)"
  let ?d = "d0\<lparr>disks := [''disk-a'', ''disk-b'', ''disk-c'']\<rparr>"
  let ?res = "Err (ErrorString (''error extending datastore with disk '' @ [CHR 0x22] @ ''disk-b''
             @ [CHR 0x22] @ '': extend refused''))"
  let ?s' = "\<lparr>world = \<lparr>fw_present = False, fw_extents = [], fw_busy = 0, fw_stale = 0\<rparr>,
       calls = [Call HostDatastoreSystemFromHostSystemID [''host-9''] None,
                Call DiskSpecForCreate [''dss-of-host-9'', ''disk-a''] None,
                Call CreateVmfsDatastore [''dss-of-host-9'', ''vol'', ''disk-a''] None,
                Call DiskSpecForExtend [''dss-of-host-9'', ''ds-1'', ''disk-b''] None,
                Call ExtendVmfsDatastore [''dss-of-host-9'', ''ds-1'', ''disk-b'']
                  (Some ''extend refused''),
                Call RemoveDatastore [''dss-of-host-9'', ''ds-1''] None]\<rparr>"
  have run: "resourceVSphereVmfsDatastoreCreate ?env ?d empty_world = (?res, ?s')"
    by code_simp
  have failed: "Call ExtendVmfsDatastore [''dss-of-host-9'', ''ds-1'', ''disk-b'']
                  (Some ''extend refused'') \<in> set (drop (length (calls empty_world)) (calls ?s'))"
    by (simp add: empty_world_def)
  have ext: "ExtendVmfsDatastore = DiskSpecForExtend \<or> ExtendVmfsDatastore = ExtendVmfsDatastore"
    by simp
  have contract: "\<forall>dss ds w. fst (ext_removeDatastore ?env dss ds w) = Inr () \<longrightarrow>
      \<not> (\<lambda>w ref. fw_present w) (snd (ext_removeDatastore ?env dss ds w)) (Reference ds)"
    by (simp add: fake_def fake_removeDatastore_def)
  from create_extension_failure [OF run failed ext contract]
  obtain pre dss ref disk r where
    c: "calls ?s' = calls empty_world @ pre @
          [Call ExtendVmfsDatastore [''dss-of-host-9'', ''ds-1'', ''disk-b''] (Some ''extend refused''),
           Call RemoveDatastore [dss, ref] r]"
    and dk: "disk \<in> set (tl (disks ?d))"
    and shape: "(ExtendVmfsDatastore = DiskSpecForExtend
                   \<and> [''dss-of-host-9'', ''ds-1'', ''disk-b''] = [dss, ref, disk])
                \<or> (ExtendVmfsDatastore = ExtendVmfsDatastore \<and> pre \<noteq> []
                    \<and> last pre = Call DiskSpecForExtend [dss, ref, disk] None)"
    by blast
  have pre: "pre = [Call HostDatastoreSystemFromHostSystemID [''host-9''] None,
                Call DiskSpecForCreate [''dss-of-host-9'', ''disk-a''] None,
                Call CreateVmfsDatastore [''dss-of-host-9'', ''vol'', ''disk-a''] None,
                Call DiskSpecForExtend [''dss-of-host-9'', ''ds-1'', ''disk-b''] None]"
    and rr: "dss = ''dss-of-host-9''" "ref = ''ds-1''" "r = None"
    using c by (auto simp: empty_world_def append_eq_Cons_conv Cons_eq_append_conv)
  have "disk = ''disk-b''"
    using shape pre by simp
  then show ?thesis
    using run pre rr dk by (simp add: d0_def)
qed

text \<open>The other outcome on the scripted endpoint: the second disk is unknown and the removal is denied.\<close>

lemma create_dangling_example:
  "resourceVSphereVmfsDatastoreCreate
      (fake (healthy\<lparr>k_unknown_disks := [''disk-b''], k_remove_denied := True\<rparr>))
      (d0\<lparr>disks := [''disk-a'', ''disk-b'']\<rparr>) empty_world =
     (Err (ErrorString
        (formatVmfsDatastoreCreateRollbackErrorUpdate
           ([CHR 0x22] @ ''disk-b'' @ [CHR 0x22]) ''no such disk'' ''permission denied'')),
      \<lparr>world = \<lparr>fw_present = True, fw_extents = [''disk-a''], fw_busy = 0, fw_stale = 0\<rparr>,
       calls = [Call HostDatastoreSystemFromHostSystemID [''host-9''] None,
                Call DiskSpecForCreate [''dss-of-host-9'', ''disk-a''] None,
                Call CreateVmfsDatastore [''dss-of-host-9'', ''vol'', ''disk-a''] None,
                Call DiskSpecForExtend [''dss-of-host-9'', ''ds-1'', ''disk-b'']
                  (Some ''no such disk''),
                Call RemoveDatastore [''dss-of-host-9'', ''ds-1'']
                  (Some ''permission denied'')]\<rparr>)"
  by code_simp

subsection \<open>A failed read-back\<close>

text \<open>
  Claim C2 asks for one compensating removal on every failure after the remote create,
  the final read-back included. On the scripted endpoint the create succeeds with one
  disk and no folder, and the fetch of the properties in the read-back fails: the
  creation returns the plain error of the read, no removal is among its calls, and the
  datastore stays on the endpoint.
\<close>

theorem create_readback_failure_no_rollback:
  "resourceVSphereVmfsDatastoreCreate (fake (healthy\<lparr>k_properties_denied := True\<rparr>)) d0 empty_world =
     (Err (ErrorString ''could not get properties for datastore: properties unavailable''),
      \<lparr>world = \<lparr>fw_present = True, fw_extents = [''disk-a''], fw_busy = 0, fw_stale = 0\<rparr>,
       calls = [Call HostDatastoreSystemFromHostSystemID [''host-9''] None,
                Call DiskSpecForCreate [''dss-of-host-9'', ''disk-a''] None,
                Call CreateVmfsDatastore [''dss-of-host-9'', ''vol'', ''disk-a''] None,
                Call DatastoreFromID [''ds-1''] None,
                Call DatastoreProperties [''ds-1''] (Some ''properties unavailable'')]\<rparr>)"
  by code_simp

section \<open>Update\<close>

subsection \<open>The calls of a run\<close>

lemma disk_found_iff: "disk_found v vs b \<longleftrightarrow> b \<or> v \<in> set vs"
  by (induction vs arbitrary: b) auto

lemma vetoRemovedDisks_find:
  "vetoRemovedDisks old new =
     map_option
       (\<lambda>v. ErrorString (''disk '' @ v
               @ '' found in state but not config (removal of disks is not supported)''))
       (find (\<lambda>v. v \<notin> set new) old)"
  by (induction old) (auto simp: disk_found_iff)

lemma addNewDisks_run:
  "addNewDisks env dss ds new old s = (res, s') \<Longrightarrow>
     \<exists>X. calls s' = calls s @ X
       \<and> (\<forall>c \<in> set X. call_prim c = DiskSpecForExtend \<or> call_prim c = ExtendVmfsDatastore)"
proof (induction new arbitrary: s)
  case Nil
  then show ?case by simp
next
  case (Cons v1 rest)
  show ?case
  proof (cases "disk_found v1 old False")
    case True
    with Cons.prems have "addNewDisks env dss ds rest old s = (res, s')" by simp
    from Cons.IH [OF this] show ?thesis .
  next
    case False
    obtain r1 s1 where a: "diskSpecForExtend env dss ds v1 s = (r1, s1)"
      by (cases "diskSpecForExtend env dss ds v1 s")
    have c1: "calls s1 = calls s @ [Call DiskSpecForExtend [dss, Reference ds, v1]
                (case r1 of Inl e \<Rightarrow> Some e | Inr x \<Rightarrow> None)]"
      using a by (simp add: diskSpecForExtend_def remote_eq)
    show ?thesis
    proof (cases r1)
      case (Inl err)
      with Cons.prems False a have "s' = s1" by simp
      with c1 show ?thesis by auto
    next
      case (Inr spec)
      obtain r2 s2 where b: "extendVmfsDatastore env dss ds spec s1 = (r2, s2)"
        by (cases "extendVmfsDatastore env dss ds spec s1")
      have c2: "calls s2 = calls s1 @ [Call ExtendVmfsDatastore [dss, Reference ds, spec]
                  (case r2 of Inl e \<Rightarrow> Some e | Inr x \<Rightarrow> None)]"
        using b by (simp add: extendVmfsDatastore_def remote_eq)
      show ?thesis
      proof (cases r2)
        case (Inl err)
        with Cons.prems False a Inr b have "s' = s2" by simp
        with c1 c2 show ?thesis by auto
      next
        case ok: (Inr ds')
        with Cons.prems False a Inr b have "addNewDisks env dss ds rest old s2 = (res, s')"
          by simp
        from Cons.IH [OF this] obtain X where "calls s' = calls s2 @ X"
          and "\<forall>c \<in> set X. call_prim c = DiskSpecForExtend \<or> call_prim c = ExtendVmfsDatastore"
          by blast
        with c1 c2 show ?thesis
          by (intro exI [of _ "[Call DiskSpecForExtend [dss, Reference ds, v1]
                (case r1 of Inl e \<Rightarrow> Some e | Inr x \<Rightarrow> None),
                Call ExtendVmfsDatastore [dss, Reference ds, spec]
                  (case r2 of Inl e \<Rightarrow> Some e | Inr x \<Rightarrow> None)] @ X"]) auto
      qed
    qed
  qed
qed

lemma addNewDisks_nothing_new:
  "set new \<subseteq> set old \<Longrightarrow> addNewDisks env dss ds new old s = (None, s)"
  by (induction new) (auto simp: disk_found_iff)

lemma renameOnUpdate_run:
  "renameOnUpdate env d ds s = (res, s') \<Longrightarrow>
     (old_name d = name d \<and> res = None \<and> s' = s)
     \<or> (old_name d \<noteq> name d
         \<and> (\<exists>r. calls s' = calls s @ [Call RenameObject [Reference ds, name d] r]
                \<and> (r = None \<longleftrightarrow> res = None)))"
  by (auto simp: renameOnUpdate_def renameObject_def remote_eq
      split: if_splits prod.splits sum.splits)

lemma moveOnUpdate_run:
  "moveOnUpdate env d ds s = (res, s') \<Longrightarrow>
     (old_folder d = folder d \<and> res = None \<and> s' = s)
     \<or> (old_folder d \<noteq> folder d
         \<and> (\<exists>r. calls s' = calls s @ [Call MoveDatastoreToFolder [Reference ds, folder d] r]
                \<and> (r = None \<longleftrightarrow> res = None)))"
  by (auto simp: moveOnUpdate_def moveDatastoreToFolder_def remote_eq
      split: if_splits prod.splits sum.splits)

subsection \<open>A shrunk disk list\<close>

text \<open>
  The calls of a run of the update whose new disk list lacks a disk of the old one:
  none resolves an extend spec, extends or removes, and the mutating ones are the rename
  and the move.
\<close>

lemma update_shrink_run:
  fixes env :: "('w, 'e) helpers"
  assumes run: "resourceVSphereVmfsDatastoreUpdate env d s = (res, s')"
    and shrink: "\<not> set (old_disks d) \<subseteq> set (disks d)"
  shows "\<exists>v X. find (\<lambda>v. v \<notin> set (disks d)) (old_disks d) = Some v
     \<and> (\<exists>e. res = Err e)
     \<and> calls s' = calls s @ X
     \<and> (\<forall>c \<in> set X. call_prim c \<noteq> DiskSpecForExtend \<and> call_prim c \<noteq> ExtendVmfsDatastore
                      \<and> call_prim c \<noteq> RemoveDatastore)
     \<and> (\<forall>c \<in> set X. mutating (call_prim c) \<longrightarrow>
            (call_prim c = RenameObject \<and> old_name d \<noteq> name d)
            \<or> (call_prim c = MoveDatastoreToFolder \<and> old_folder d \<noteq> folder d))
     \<and> ((\<forall>c \<in> set X. call_result c = None) \<longrightarrow>
            res = Err (ErrorString (''disk '' @ v
                    @ '' found in state but not config (removal of disks is not supported)'')))"
proof -
  let ?policy = "\<lambda>v. ErrorString (''disk '' @ v
                    @ '' found in state but not config (removal of disks is not supported)'')"
  obtain v where v: "find (\<lambda>v. v \<notin> set (disks d)) (old_disks d) = Some v"
    using shrink by (cases "find (\<lambda>v. v \<notin> set (disks d)) (old_disks d)") (auto simp: find_None_iff)
  define pe :: "'e error" where "pe = ?policy v"
  have veto: "vetoRemovedDisks (old_disks d) (disks d) = Some pe"
    by (simp add: vetoRemovedDisks_find v pe_def)
  have goal: "?thesis"
    if "res = Err e" and "calls s' = calls s @ X"
      and "\<forall>c \<in> set X. call_prim c \<noteq> DiskSpecForExtend \<and> call_prim c \<noteq> ExtendVmfsDatastore
                      \<and> call_prim c \<noteq> RemoveDatastore"
      and "\<forall>c \<in> set X. mutating (call_prim c) \<longrightarrow>
            (call_prim c = RenameObject \<and> old_name d \<noteq> name d)
            \<or> (call_prim c = MoveDatastoreToFolder \<and> old_folder d \<noteq> folder d)"
      and "(\<forall>c \<in> set X. call_result c = None) \<longrightarrow> res = Err (?policy v)"
    for e X
    using that v by blast
  obtain r1 s1 where h1: "hostDatastoreSystemFromHostSystemID env (host_system_id d) s = (r1, s1)"
    by (cases "hostDatastoreSystemFromHostSystemID env (host_system_id d) s")
  have c1: "calls s1 = calls s @ [Call HostDatastoreSystemFromHostSystemID [host_system_id d]
              (case r1 of Inl e \<Rightarrow> Some e | Inr x \<Rightarrow> None)]"
    using h1 by (simp add: hostDatastoreSystemFromHostSystemID_def remote_eq)
  show ?thesis
  proof (cases r1)
    case (Inl err)
    then obtain e where "s' = s1" "res = Err e"
      using run h1 by (auto simp: resourceVSphereVmfsDatastoreUpdate_def)
    then show ?thesis
      using c1 Inl
      by (intro goal [of e "[Call HostDatastoreSystemFromHostSystemID [host_system_id d] (Some err)]"])
         auto
  next
    case dss: (Inr dss)
    obtain r2 s2 where h2: "datastoreFromID env (Id_d d) s1 = (r2, s2)"
      by (cases "datastoreFromID env (Id_d d) s1")
    have c2: "calls s2 = calls s1 @ [Call DatastoreFromID [Id_d d]
                (case r2 of Inl e \<Rightarrow> Some e | Inr x \<Rightarrow> None)]"
      using h2 by (simp add: datastoreFromID_def remote_eq)
    show ?thesis
    proof (cases r2)
      case (Inl err)
      then obtain e where "s' = s2" "res = Err e"
        using run h1 dss h2 by (auto simp: resourceVSphereVmfsDatastoreUpdate_def)
      then show ?thesis
        using c1 c2 Inl dss
        by (intro goal [of e "[Call HostDatastoreSystemFromHostSystemID [host_system_id d] None,
                               Call DatastoreFromID [Id_d d] (Some err)]"])
           auto
    next
      case ds: (Inr ds)
      let ?L = "[Call HostDatastoreSystemFromHostSystemID [host_system_id d] None,
                 Call DatastoreFromID [Id_d d] None]"
      have cL: "calls s2 = calls s @ ?L"
        using c1 c2 dss ds by simp
      obtain r3 s3 where h3: "renameOnUpdate env d ds s2 = (r3, s3)"
        by (cases "renameOnUpdate env d ds s2")
      from renameOnUpdate_run [OF h3] obtain R where
        cR: "calls s3 = calls s2 @ R"
        and R: "R = [] \<or> (old_name d \<noteq> name d \<and>
                  (\<exists>r. R = [Call RenameObject [Reference ds, name d] r] \<and> (r = None \<longleftrightarrow> r3 = None)))"
        and R0: "R = [] \<longrightarrow> r3 = None"
        by auto
      show ?thesis
      proof (cases r3)
        case (Some e)
        then have "s' = s3" "res = Err e"
          using run h1 dss h2 ds h3 by (auto simp: resourceVSphereVmfsDatastoreUpdate_def)
        moreover have "calls s3 = calls s @ (?L @ R)"
          using cL cR by simp
        ultimately show ?thesis
          using R R0 Some by (intro goal [of e "?L @ R"]) auto
      next
        case rn: None
        obtain r4 s4 where h4: "moveOnUpdate env d ds s3 = (r4, s4)"
          by (cases "moveOnUpdate env d ds s3")
        from moveOnUpdate_run [OF h4] obtain M where
          cM: "calls s4 = calls s3 @ M"
          and M: "M = [] \<or> (old_folder d \<noteq> folder d \<and>
                  (\<exists>r. M = [Call MoveDatastoreToFolder [Reference ds, folder d] r] \<and> (r = None \<longleftrightarrow> r4 = None)))"
          and M0: "M = [] \<longrightarrow> r4 = None"
          by auto
        have cLRM: "calls s4 = calls s @ (?L @ R @ M)"
          using cL cR cM by simp
        show ?thesis
        proof (cases r4)
          case (Some e)
          then have "s' = s4" "res = Err e"
            using run h1 dss h2 ds h3 rn h4
            by (auto simp: resourceVSphereVmfsDatastoreUpdate_def)
          then show ?thesis
            using cLRM R M M0 Some by (intro goal [of e "?L @ R @ M"]) auto
        next
          case None
          then have "s' = s4" "res = Err pe"
            using run h1 dss h2 ds h3 rn h4 veto
            by (auto simp: resourceVSphereVmfsDatastoreUpdate_def)
          then show ?thesis
            using cLRM R M unfolding pe_def by (intro goal [of "?policy v" "?L @ R @ M"]) auto
        qed
      qed
    qed
  qed
qed

text \<open>
  Claim C3, as amended. Take any update whose new disk list lacks a disk of the old one,
  and let \<open>v\<close> be the first such disk of the old list. The update is the lookup of the
  host's datastore system, the fetch of the datastore, the rename when the name has
  changed, the move when the folder has changed, and then the veto: it fails with the
  error of the first of these steps that fails, and with the policy violation that
  names \<open>v\<close> when none does. So a changed name or folder is renamed or moved on the
  endpoint before the update is vetoed. No call of the update resolves an extend spec,
  extends or removes, and its only mutating calls are that rename and that move.
\<close>

theorem update_shrink_rejected:
  fixes env :: "('w, 'e) helpers"
  assumes shrink: "\<not> set (old_disks d) \<subseteq> set (disks d)"
  shows "\<exists>v. find (\<lambda>v. v \<notin> set (disks d)) (old_disks d) = Some v
     \<and> resourceVSphereVmfsDatastoreUpdate env d s =
        (case hostDatastoreSystemFromHostSystemID env (host_system_id d) s of
           (Inl err, s1) \<Rightarrow>
             (Err (ErrorString
                (''error loading host datastore system: '' @ errorText env err)), s1)
         | (Inr dss, s1) \<Rightarrow>
             (case datastoreFromID env (Id_d d) s1 of
                (Inl err, s2) \<Rightarrow>
                  (Err (ErrorString (''cannot find datastore: '' @ errorText env err)), s2)
              | (Inr ds, s2) \<Rightarrow>
                  (case (if old_name d \<noteq> name d
                         then renameObject env (Reference ds) (name d) s2
                         else (Inr (), s2)) of
                     (Inl err, s3) \<Rightarrow> (Err (Foreign err), s3)
                   | (Inr u, s3) \<Rightarrow>
                       (case (if old_folder d \<noteq> folder d
                              then moveDatastoreToFolder env ds (folder d) s3
                              else (Inr (), s3)) of
                          (Inl err, s4) \<Rightarrow>
                            (Err (ErrorString
                               (''Could not move datastore to folder '' @ quote env (folder d)
                                  @ '': '' @ errorText env err)), s4)
                        | (Inr u', s4) \<Rightarrow>
                            (Err (ErrorString
                               (''disk '' @ v
                                  @ '' found in state but not config (removal of disks is not supported)'')),
                             s4)))))
     \<and> (\<forall>c \<in> set (drop (length (calls s))
                    (calls (snd (resourceVSphereVmfsDatastoreUpdate env d s)))).
            call_prim c \<noteq> DiskSpecForExtend \<and> call_prim c \<noteq> ExtendVmfsDatastore
            \<and> call_prim c \<noteq> RemoveDatastore
            \<and> (mutating (call_prim c) \<longrightarrow>
                  (call_prim c = RenameObject \<and> old_name d \<noteq> name d)
                  \<or> (call_prim c = MoveDatastoreToFolder \<and> old_folder d \<noteq> folder d)))"
proof -
  obtain v where v: "find (\<lambda>v. v \<notin> set (disks d)) (old_disks d) = Some v"
    using shrink by (cases "find (\<lambda>v. v \<notin> set (disks d)) (old_disks d)") (auto simp: find_None_iff)
  define pe :: "'e error" where
    "pe = ErrorString (''disk '' @ v
            @ '' found in state but not config (removal of disks is not supported)'')"
  have veto: "vetoRemovedDisks (old_disks d) (disks d) = Some pe"
    by (simp add: vetoRemovedDisks_find v pe_def)
  let ?R = "\<lambda>ds s2. if old_name d \<noteq> name d
                      then renameObject env (Reference ds) (name d) s2
                      else (Inr (), s2)"
  let ?M = "\<lambda>ds s3. if old_folder d \<noteq> folder d
                      then moveDatastoreToFolder env ds (folder d) s3
                      else (Inr (), s3)"
  let ?tail = "\<lambda>ds s2.
     case ?R ds s2 of
       (Inl err, s3) \<Rightarrow> (Err (Foreign err), s3)
     | (Inr u, s3) \<Rightarrow>
         (case ?M ds s3 of
            (Inl err, s4) \<Rightarrow>
              (Err (ErrorString
                 (''Could not move datastore to folder '' @ quote env (folder d)
                    @ '': '' @ errorText env err)), s4)
          | (Inr u', s4) \<Rightarrow> (Err pe, s4))"
  have ren: "renameOnUpdate env d ds s2 =
      (case ?R ds s2 of (Inl err, s3) \<Rightarrow> (Some (Foreign err), s3) | (Inr u, s3) \<Rightarrow> (None, s3))"
    for ds s2
    by (simp add: renameOnUpdate_def)
  have mov: "moveOnUpdate env d ds s3 =
      (case ?M ds s3 of
         (Inl err, s4) \<Rightarrow>
           (Some (ErrorString
              (''Could not move datastore to folder '' @ quote env (folder d)
                 @ '': '' @ errorText env err)), s4)
       | (Inr u, s4) \<Rightarrow> (None, s4))"
    for ds s3
    by (simp add: moveOnUpdate_def)
  have tail: "(case renameOnUpdate env d ds s2 of
                 (Some e, s3) \<Rightarrow> (Err e, s3)
               | (None, s3) \<Rightarrow>
                   (case moveOnUpdate env d ds s3 of
                      (Some e, s4) \<Rightarrow> (Err e, s4)
                    | (None, s4) \<Rightarrow>
                        (case vetoRemovedDisks (old_disks d) (disks d) of
                           Some e \<Rightarrow> (Err e, s4)
                         | None \<Rightarrow>
                             (case addNewDisks env dss ds (disks d) (old_disks d) s4 of
                                (Some e, s5) \<Rightarrow> (Err e, s5)
                              | (None, s5) \<Rightarrow> resourceVSphereVmfsDatastoreRead env d s5))))
              = ?tail ds s2"
    for dss ds s2
  proof (cases "?R ds s2")
    case (Pair r3 s3)
    show ?thesis
    proof (cases r3)
      case (Inl err)
      then show ?thesis using Pair by (simp only: ren) simp
    next
      case (Inr u)
      show ?thesis
      proof (cases "?M ds s3")
        case M: (Pair r4 s4)
        show ?thesis
          using Pair Inr M by (cases r4) (simp_all only: ren mov, simp_all add: veto)
      qed
    qed
  qed
  have eq: "resourceVSphereVmfsDatastoreUpdate env d s =
        (case hostDatastoreSystemFromHostSystemID env (host_system_id d) s of
           (Inl err, s1) \<Rightarrow>
             (Err (ErrorString
                (''error loading host datastore system: '' @ errorText env err)), s1)
         | (Inr dss, s1) \<Rightarrow>
             (case datastoreFromID env (Id_d d) s1 of
                (Inl err, s2) \<Rightarrow>
                  (Err (ErrorString (''cannot find datastore: '' @ errorText env err)), s2)
              | (Inr ds, s2) \<Rightarrow> ?tail ds s2))"
    unfolding resourceVSphereVmfsDatastoreUpdate_def tail ..
  obtain res s' where run: "resourceVSphereVmfsDatastoreUpdate env d s = (res, s')"
    by (cases "resourceVSphereVmfsDatastoreUpdate env d s")
  from update_shrink_run [OF run shrink] obtain X where
    X: "calls s' = calls s @ X"
      "\<forall>c \<in> set X. call_prim c \<noteq> DiskSpecForExtend \<and> call_prim c \<noteq> ExtendVmfsDatastore
                      \<and> call_prim c \<noteq> RemoveDatastore"
      "\<forall>c \<in> set X. mutating (call_prim c) \<longrightarrow>
            (call_prim c = RenameObject \<and> old_name d \<noteq> name d)
            \<or> (call_prim c = MoveDatastoreToFolder \<and> old_folder d \<noteq> folder d)"
    by blast
  have tr: "\<forall>c \<in> set (drop (length (calls s))
                    (calls (snd (resourceVSphereVmfsDatastoreUpdate env d s)))).
            call_prim c \<noteq> DiskSpecForExtend \<and> call_prim c \<noteq> ExtendVmfsDatastore
            \<and> call_prim c \<noteq> RemoveDatastore
            \<and> (mutating (call_prim c) \<longrightarrow>
                  (call_prim c = RenameObject \<and> old_name d \<noteq> name d)
                  \<or> (call_prim c = MoveDatastoreToFolder \<and> old_folder d \<noteq> folder d))"
    using X run by simp
  show ?thesis
    using v eq [unfolded pe_def] tr by blast
qed

text \<open>
  C3's theorem on the scripted endpoint: the old disks are a and c, the new one is b,
  and the name has changed.
\<close>

theorem update_shrink_rejected_witness:
  "\<not> set (old_disks (d0\<lparr>name := ''vol3'', disks := [''disk-b''],
                          old_disks := [''disk-a'', ''disk-c'']\<rparr>))
        \<subseteq> set (disks (d0\<lparr>name := ''vol3'', disks := [''disk-b''],
                              old_disks := [''disk-a'', ''disk-c'']\<rparr>))
   \<and> find (\<lambda>v. v \<notin> set [''disk-b'']) [''disk-a'', ''disk-c''] = Some ''disk-a''
   \<and> resourceVSphereVmfsDatastoreUpdate (fake healthy)
        (d0\<lparr>name := ''vol3'', disks := [''disk-b''], old_disks := [''disk-a'', ''disk-c'']\<rparr>)
        one_datastore =
       (Err (ErrorString
          ''disk disk-a found in state but not config (removal of disks is not supported)''),
        one_datastore\<lparr>calls := [Call HostDatastoreSystemFromHostSystemID [''host-9''] None,
                                Call DatastoreFromID [''ds-1''] None,
                                Call RenameObject [''ds-1'', ''vol3''] None]\<rparr>)"
proof -
  let ?d = "d0\<lparr>name := ''vol3'', disks := [''disk-b''], old_disks := [''disk-a'', ''disk-c'']\<rparr>"
  have shrink: "\<not> set (old_disks ?d) \<subseteq> set (disks ?d)"
    by simp
  have run: "resourceVSphereVmfsDatastoreUpdate (fake healthy) ?d one_datastore =
       (Err (ErrorString
          ''disk disk-a found in state but not config (removal of disks is not supported)''),
        one_datastore\<lparr>calls := [Call HostDatastoreSystemFromHostSystemID [''host-9''] None,
                                Call DatastoreFromID [''ds-1''] None,
                                Call RenameObject [''ds-1'', ''vol3''] None]\<rparr>)"
    by code_simp
  from update_shrink_rejected [OF shrink, of "fake healthy" one_datastore]
  have "\<exists>v. find (\<lambda>v. v \<notin> set (disks ?d)) (old_disks ?d) = Some v"
    by blast
  then show ?thesis
    using shrink run by simp
qed

text \<open>
  C3 as it is written fails. With a new name and a new disk list that lacks
  \<open>disk-a\<close>, the update is vetoed after the datastore has been renamed on the
  endpoint: the rename is a remote mutation that the shrunk configuration has caused.
\<close>

theorem update_shrink_counterexample:
  "resourceVSphereVmfsDatastoreUpdate (fake healthy)
      (d0\<lparr>name := ''vol2'', disks := [''disk-b'']\<rparr>) one_datastore =
     (Err (ErrorString
        ''disk disk-a found in state but not config (removal of disks is not supported)''),
      one_datastore\<lparr>calls := [Call HostDatastoreSystemFromHostSystemID [''host-9''] None,
                              Call DatastoreFromID [''ds-1''] None,
                              Call RenameObject [''ds-1'', ''vol2''] None]\<rparr>)
   \<and> ''disk-a'' \<in> set (old_disks (d0\<lparr>name := ''vol2'', disks := [''disk-b'']\<rparr>))
   \<and> ''disk-a'' \<notin> set (disks (d0\<lparr>name := ''vol2'', disks := [''disk-b'']\<rparr>))
   \<and> mutating RenameObject"
  by code_simp

subsection \<open>No change\<close>

text \<open>
  Claim C4, as amended. When the name, the folder and the disk list are the recorded
  ones, the update is the lookup of the host's datastore system, the fetch of the
  datastore and the read-back: it returns the error of the first of these that fails,
  and the result of the read-back otherwise. None of its calls is a mutating one.
\<close>

theorem update_without_changes:
  assumes "old_name d = name d" and "old_folder d = folder d" and "old_disks d = disks d"
  shows "resourceVSphereVmfsDatastoreUpdate env d s =
     (case hostDatastoreSystemFromHostSystemID env (host_system_id d) s of
        (Inl err, s1) \<Rightarrow>
          (Err (ErrorString (''error loading host datastore system: '' @ errorText env err)), s1)
      | (Inr dss, s1) \<Rightarrow>
          (case datastoreFromID env (Id_d d) s1 of
             (Inl err, s2) \<Rightarrow>
               (Err (ErrorString (''cannot find datastore: '' @ errorText env err)), s2)
           | (Inr ds, s2) \<Rightarrow> resourceVSphereVmfsDatastoreRead env d s2))
   \<and> (\<forall>c \<in> set (drop (length (calls s))
                  (calls (snd (resourceVSphereVmfsDatastoreUpdate env d s)))).
          \<not> mutating (call_prim c))"
proof
  have veto: "vetoRemovedDisks (disks d) (disks d) = None"
    by (simp add: vetoRemovedDisks_find find_None_iff)
  show eq: "resourceVSphereVmfsDatastoreUpdate env d s =
     (case hostDatastoreSystemFromHostSystemID env (host_system_id d) s of
        (Inl err, s1) \<Rightarrow>
          (Err (ErrorString (''error loading host datastore system: '' @ errorText env err)), s1)
      | (Inr dss, s1) \<Rightarrow>
          (case datastoreFromID env (Id_d d) s1 of
             (Inl err, s2) \<Rightarrow>
               (Err (ErrorString (''cannot find datastore: '' @ errorText env err)), s2)
           | (Inr ds, s2) \<Rightarrow> resourceVSphereVmfsDatastoreRead env d s2))"
    using assms
    by (simp add: resourceVSphereVmfsDatastoreUpdate_def renameOnUpdate_def moveOnUpdate_def
        veto addNewDisks_nothing_new split: prod.splits sum.splits)
  obtain res s' where run: "resourceVSphereVmfsDatastoreUpdate env d s = (res, s')"
    by (cases "resourceVSphereVmfsDatastoreUpdate env d s")
  obtain r1 s1 where h1: "hostDatastoreSystemFromHostSystemID env (host_system_id d) s = (r1, s1)"
    by (cases "hostDatastoreSystemFromHostSystemID env (host_system_id d) s")
  have c1: "calls s1 = calls s @ [Call HostDatastoreSystemFromHostSystemID [host_system_id d]
              (case r1 of Inl e \<Rightarrow> Some e | Inr x \<Rightarrow> None)]"
    using h1 by (simp add: hostDatastoreSystemFromHostSystemID_def remote_eq)
  obtain r2 s2 where h2: "datastoreFromID env (Id_d d) s1 = (r2, s2)"
    by (cases "datastoreFromID env (Id_d d) s1")
  have c2: "calls s2 = calls s1 @ [Call DatastoreFromID [Id_d d]
              (case r2 of Inl e \<Rightarrow> Some e | Inr x \<Rightarrow> None)]"
    using h2 by (simp add: datastoreFromID_def remote_eq)
  have "\<forall>c \<in> set (drop (length (calls s)) (calls s')). \<not> mutating (call_prim c)"
  proof (cases r1)
    case (Inl err)
    then have "s' = s1" using eq run h1 by simp
    then show ?thesis using c1 by simp
  next
    case dss: (Inr dss)
    show ?thesis
    proof (cases r2)
      case (Inl err)
      then have "s' = s2" using eq run h1 dss h2 by simp
      then show ?thesis using c1 c2 by simp
    next
      case (Inr ds)
      then have "resourceVSphereVmfsDatastoreRead env d s2 = (res, s')"
        using eq run h1 dss h2 by simp
      from Read_run [OF this] obtain X where "calls s' = calls s2 @ X"
        and "\<forall>c \<in> set X. call_prim c = DatastoreFromID \<or> call_prim c = DatastoreProperties"
        by blast
      then show ?thesis using c1 c2 by auto
    qed
  qed
  then show "\<forall>c \<in> set (drop (length (calls s))
                  (calls (snd (resourceVSphereVmfsDatastoreUpdate env d s)))).
          \<not> mutating (call_prim c)"
    using run by simp
qed

text \<open>C4's theorem on the scripted endpoint with its datastore: the update succeeds.\<close>

theorem update_without_changes_witness:
  "resourceVSphereVmfsDatastoreUpdate (fake healthy) d0 one_datastore =
     (OK (d0\<lparr>folder := ''ds-folder''\<rparr>),
      one_datastore\<lparr>calls := [Call HostDatastoreSystemFromHostSystemID [''host-9''] None,
                              Call DatastoreFromID [''ds-1''] None,
                              Call DatastoreFromID [''ds-1''] None,
                              Call DatastoreProperties [''ds-1''] None]\<rparr>)
   \<and> resourceVSphereVmfsDatastoreUpdate (fake healthy) d0 one_datastore =
       resourceVSphereVmfsDatastoreRead (fake healthy) d0
         (one_datastore\<lparr>calls := [Call HostDatastoreSystemFromHostSystemID [''host-9''] None,
                                 Call DatastoreFromID [''ds-1''] None]\<rparr>)"
proof -
  have a: "old_name d0 = name d0" and b: "old_folder d0 = folder d0"
    and c: "old_disks d0 = disks d0"
    by (simp_all add: d0_def)
  have h1: "hostDatastoreSystemFromHostSystemID (fake healthy) (host_system_id d0) one_datastore =
      (Inr ''dss-of-host-9'',
       one_datastore\<lparr>calls := [Call HostDatastoreSystemFromHostSystemID [''host-9''] None]\<rparr>)"
    by code_simp
  have h2: "datastoreFromID (fake healthy) (Id_d d0)
       (one_datastore\<lparr>calls := [Call HostDatastoreSystemFromHostSystemID [''host-9''] None]\<rparr>) =
      (Inr ds1,
       one_datastore\<lparr>calls := [Call HostDatastoreSystemFromHostSystemID [''host-9''] None,
                               Call DatastoreFromID [''ds-1''] None]\<rparr>)"
    by code_simp
  have run: "resourceVSphereVmfsDatastoreUpdate (fake healthy) d0 one_datastore =
     (OK (d0\<lparr>folder := ''ds-folder''\<rparr>),
      one_datastore\<lparr>calls := [Call HostDatastoreSystemFromHostSystemID [''host-9''] None,
                              Call DatastoreFromID [''ds-1''] None,
                              Call DatastoreFromID [''ds-1''] None,
                              Call DatastoreProperties [''ds-1''] None]\<rparr>)"
    by code_simp
  show ?thesis
    using update_without_changes [OF a b c, of "fake healthy" one_datastore] run
    by (simp add: h1 h2)
qed

text \<open>
  C4 as it is written fails: on the endpoint that has no datastore \<open>ds-1\<close>, the update
  without any change fails with the cannot-find error.
\<close>

theorem update_without_changes_counterexample:
  "resourceVSphereVmfsDatastoreUpdate (fake healthy) d0 empty_world =
     (Err (ErrorString ''cannot find datastore: not found''),
      empty_world\<lparr>calls := [Call HostDatastoreSystemFromHostSystemID [''host-9''] None,
                            Call DatastoreFromID [''ds-1''] (Some ''not found'')]\<rparr>)
   \<and> old_name d0 = name d0 \<and> old_folder d0 = folder d0 \<and> old_disks d0 = disks d0"
  by code_simp

section \<open>Read\<close>

text \<open>
  Claim C9, as amended. The read asserts the type of the fetched volume info without
  checking it. When the datastore and its properties have been fetched and the
  properties carry no VMFS volume info (the info is of another type, or its VMFS pointer
  is nil), the read never succeeds: it returns the error of the summary flattening when
  that fails, the path error when the folder path cannot be split, and panics
  otherwise, that is whenever it reaches the projection of the disk list. Nothing in it
  looks at the volume type, which here is arbitrary.
\<close>

theorem read_without_vmfs_info:
  assumes "datastoreFromID env (Id_d d) s = (Inr ds, s1)"
    and "datastoreProperties env ds s1 = (Inr props, s2)"
    and "\<forall>vmfs. Info props \<noteq> VmfsDatastoreInfo (Some vmfs)"
  shows "resourceVSphereVmfsDatastoreRead env d s =
     (case flattenDatastoreSummary env d (Summary props) of
        Inl err \<Rightarrow> Err (Foreign err)
      | Inr d1 \<Rightarrow>
          (case SplitRelativeFolder env (InventoryPath ds) of
             Inl err \<Rightarrow>
               Err (ErrorString
                 (''error parsing datastore path '' @ quote env (InventoryPath ds)
                    @ '': '' @ errorText env err))
           | Inr fo \<Rightarrow> Panic),
      s2)"
  using assms
  by (simp add: resourceVSphereVmfsDatastoreRead_def
      split: BaseDatastoreInfo.splits option.splits sum.splits)

text \<open>
  C9's theorem on a datastore of type NFS whose info is not the VMFS one and whose path
  can be split: the read panics.
\<close>

theorem read_without_vmfs_info_witness:
  "resourceVSphereVmfsDatastoreRead (fake (healthy\<lparr>k_fs_type := ''NFS'', k_info := OtherDatastoreInfo\<rparr>))
      d0 one_datastore =
     (Panic, one_datastore\<lparr>calls := [Call DatastoreFromID [''ds-1''] None,
                                     Call DatastoreProperties [''ds-1''] None]\<rparr>)"
proof -
  let ?k = "healthy\<lparr>k_fs_type := ''NFS'', k_info := OtherDatastoreInfo\<rparr>"
  let ?s1 = "one_datastore\<lparr>calls := [Call DatastoreFromID [''ds-1''] None]\<rparr>"
  let ?s2 = "one_datastore\<lparr>calls := [Call DatastoreFromID [''ds-1''] None,
                              Call DatastoreProperties [''ds-1''] None]\<rparr>"
  let ?props = "\<lparr>Summary = \<lparr>Type = ''NFS''\<rparr>, Host = [\<lparr>Key = ''host-9''\<rparr>],
                 Info = OtherDatastoreInfo\<rparr>"
  have a: "datastoreFromID (fake ?k) (Id_d d0) one_datastore = (Inr ds1, ?s1)"
    by (simp add: datastoreFromID_def remote_def fake_defs)
  have b: "datastoreProperties (fake ?k) ds1 ?s1 = (Inr ?props, ?s2)"
    by (simp add: datastoreProperties_def remote_def fake_defs)
  have f: "\<forall>vmfs. Info ?props \<noteq> VmfsDatastoreInfo (Some vmfs)"
    by simp
  show ?thesis
    using read_without_vmfs_info [OF a b f] by (simp add: fake_defs)
qed

text \<open>
  C9 as it is written fails. A datastore of type NFS whose info is not the VMFS one and
  whose inventory path has no datastore root: the read returns the path error, an error
  value, and does not panic.
\<close>

theorem read_without_vmfs_info_counterexample:
  "resourceVSphereVmfsDatastoreRead
      ((fake (healthy\<lparr>k_fs_type := ''NFS'', k_info := OtherDatastoreInfo\<rparr>))
         \<lparr>ext_datastoreFromID :=
            (\<lambda>ident w. (Inr \<lparr>Reference = ''ds-1'', InventoryPath = ''vol''\<rparr>, w))\<rparr>)
      d0 one_datastore =
     (Err (ErrorString
        (''error parsing datastore path '' @ [CHR 0x22] @ ''vol'' @ [CHR 0x22]
           @ '': no datastore root'')),
      one_datastore\<lparr>calls := [Call DatastoreFromID [''ds-1''] None,
                              Call DatastoreProperties [''ds-1''] None]\<rparr>)"
  by code_simp

section \<open>Delete\<close>

subsection \<open>A datastore that is not found\<close>

text \<open>
  Claim C10. When the host's datastore system has been found and the first fetch of the
  datastore by the recorded identifier fails, with whatever error (a not-found one
  included), the delete returns the cannot-find error at once: the two lookups are the
  only remote calls, so neither waiter runs and no removal is attempted.
\<close>

theorem delete_absent_datastore:
  assumes "hostDatastoreSystemFromHostSystemID env (host_system_id d) s = (Inr dss, s1)"
    and "datastoreFromID env (Id_d d) s1 = (Inl err, s2)"
  shows "resourceVSphereVmfsDatastoreDelete env ticksA ticksB d s =
           (Some (ErrorString (''cannot find datastore: '' @ errorText env err)), s2)
         \<and> calls s2 = calls s @ [Call HostDatastoreSystemFromHostSystemID [host_system_id d] None,
                                 Call DatastoreFromID [Id_d d] (Some err)]"
proof
  show "resourceVSphereVmfsDatastoreDelete env ticksA ticksB d s =
          (Some (ErrorString (''cannot find datastore: '' @ errorText env err)), s2)"
    using assms by (simp add: resourceVSphereVmfsDatastoreDelete_def)
  show "calls s2 = calls s @ [Call HostDatastoreSystemFromHostSystemID [host_system_id d] None,
                              Call DatastoreFromID [Id_d d] (Some err)]"
    using assms
    by (auto simp: hostDatastoreSystemFromHostSystemID_def datastoreFromID_def remote_eq)
qed

text \<open>C10's theorem on the endpoint without a datastore, whose fetch says not found.\<close>

theorem delete_absent_datastore_witness:
  "resourceVSphereVmfsDatastoreDelete (fake healthy) 3 3 d0 empty_world =
     (Some (ErrorString ''cannot find datastore: not found''),
      empty_world\<lparr>calls := [Call HostDatastoreSystemFromHostSystemID [''host-9''] None,
                            Call DatastoreFromID [''ds-1''] (Some ''not found'')]\<rparr>)
   \<and> isManagedObjectNotFoundError (fake healthy) ''not found''"
proof -
  let ?s1 = "empty_world\<lparr>calls := [Call HostDatastoreSystemFromHostSystemID [''host-9''] None]\<rparr>"
  let ?s2 = "empty_world\<lparr>calls := [Call HostDatastoreSystemFromHostSystemID [''host-9''] None,
                            Call DatastoreFromID [''ds-1''] (Some ''not found'')]\<rparr>"
  have a: "hostDatastoreSystemFromHostSystemID (fake healthy) (host_system_id d0) empty_world =
      (Inr ''dss-of-host-9'', ?s1)"
    by (simp add: hostDatastoreSystemFromHostSystemID_def remote_def fake_defs)
  have b: "datastoreFromID (fake healthy) (Id_d d0) ?s1 = (Inl ''not found'', ?s2)"
    by (simp add: datastoreFromID_def remote_def fake_defs)
  show ?thesis
    using delete_absent_datastore [OF a b, of 3 3]
    by (simp add: fake_def)
qed

subsection \<open>The two waiters\<close>

lemma WaitForState_run:
  assumes tick: "\<And>s st eo s1. Refresh conf s = ((st, eo), s1) \<Longrightarrow>
       \<exists>c. calls s1 = calls s @ [c] \<and> K c \<and>
          (case eo of
             Some e \<Rightarrow> E c e
           | None \<Rightarrow> (st \<in> set (Target conf) \<and> T c)
                     \<or> (st \<notin> set (Target conf) \<and> st \<in> set (Pending conf) \<and> st = pl \<and> P c))"
    and run: "WaitForState env conf n st0 s = (res, s')"
  shows "\<exists>X. calls s' = calls s @ X \<and> length X \<le> n \<and> (\<forall>c \<in> set X. K c)
      \<and> (\<forall>c \<in> set (butlast X). P c)
      \<and> (case res of
           None \<Rightarrow> X \<noteq> [] \<and> T (last X)
         | Some err \<Rightarrow>
             (X \<noteq> [] \<and> E (last X) err)
             \<or> (length X = n \<and> (\<forall>c \<in> set X. P c)
                 \<and> err = timeoutError env (if X = [] then st0 else pl)))"
  using run
proof (induction n arbitrary: st0 s)
  case 0
  then show ?case by (intro exI [of _ "[]"]) auto
next
  case (Suc n)
  obtain st eo s1 where r: "Refresh conf s = ((st, eo), s1)"
    by (cases "Refresh conf s") auto
  from tick [OF r] obtain c where c: "calls s1 = calls s @ [c]" and K: "K c"
    and cls: "case eo of
             Some e \<Rightarrow> E c e
           | None \<Rightarrow> (st \<in> set (Target conf) \<and> T c)
                     \<or> (st \<notin> set (Target conf) \<and> st \<in> set (Pending conf) \<and> st = pl \<and> P c)"
    by blast
  show ?case
  proof (cases eo)
    case (Some e)
    then have "res = Some e" "s' = s1" using Suc.prems r by auto
    then show ?thesis
      using c K cls Some by (intro exI [of _ "[c]"]) auto
  next
    case None
    show ?thesis
    proof (cases "st \<in> set (Target conf)")
      case True
      then have "res = None" "s' = s1" using Suc.prems r None by auto
      then show ?thesis
        using c K cls None True by (intro exI [of _ "[c]"]) auto
    next
      case False
      then have pend: "st \<in> set (Pending conf)" "st = pl" "P c"
        using cls None by auto
      then have "WaitForState env conf n pl s1 = (res, s')"
        using Suc.prems r None False by auto
      from Suc.IH [OF this] obtain X where
        X: "calls s' = calls s1 @ X" "length X \<le> n" "\<forall>c \<in> set X. K c"
          "\<forall>c \<in> set (butlast X). P c"
        and fin: "case res of
           None \<Rightarrow> X \<noteq> [] \<and> T (last X)
         | Some err \<Rightarrow>
             (X \<noteq> [] \<and> E (last X) err)
             \<or> (length X = n \<and> (\<forall>c \<in> set X. P c)
                 \<and> err = timeoutError env (if X = [] then pl else pl))"
        by blast
      have bl: "\<forall>c \<in> set (butlast (c # X)). P c"
        using X(4) pend(3) by auto
      show ?thesis
        using c X K bl fin pend(3)
        by (intro exI [of _ "c # X"]) (auto split: option.splits)
    qed
  qed
qed

lemma deleteRetry_tick:
  "Refresh (deleteRetry env dss ds) s = ((st, eo), s1) \<Longrightarrow>
     \<exists>c. calls s1 = calls s @ [c]
       \<and> (call_prim c = RemoveDatastore \<and> call_args c = [dss, Reference ds])
       \<and> (case eo of
             Some e \<Rightarrow> call_result c = Some e \<and> \<not> isResourceInUseError env e
           | None \<Rightarrow> (st \<in> set (Target (deleteRetry env dss ds)) \<and> call_result c = None)
                     \<or> (st \<notin> set (Target (deleteRetry env dss ds))
                         \<and> st \<in> set (Pending (deleteRetry env dss ds))
                         \<and> st = retryDeletePending \<and> busy env c))"
  by (auto simp: deleteRetry_def deleteRetryFunc_def removeDatastore_def remote_eq busy_def
      retryDeletePending_def retryDeleteCompleted_def
      split: prod.splits sum.splits if_splits)

lemma waitForDelete_tick:
  "Refresh (waitForDelete env ident) s = ((st, eo), s1) \<Longrightarrow>
     \<exists>c. calls s1 = calls s @ [c]
       \<and> (call_prim c = DatastoreFromID \<and> call_args c = [ident])
       \<and> (case eo of
             Some e \<Rightarrow> call_result c = Some e \<and> \<not> isManagedObjectNotFoundError env e
           | None \<Rightarrow> (st \<in> set (Target (waitForDelete env ident)) \<and> gone env c)
                     \<or> (st \<notin> set (Target (waitForDelete env ident))
                         \<and> st \<in> set (Pending (waitForDelete env ident))
                         \<and> st = waitForDeletePending \<and> call_result c = None))"
  by (auto simp: waitForDelete_def waitForDeleteFunc_def datastoreFromID_def remote_eq gone_def
      waitForDeletePending_def waitForDeleteCompleted_def
      split: prod.splits sum.splits if_splits)

lemma retry_loop_run:
  assumes run: "WaitForState env (deleteRetry env dss ds) n st0 s = (res, s')"
  shows "\<exists>X. calls s' = calls s @ X \<and> length X \<le> n
      \<and> (\<forall>c \<in> set X. call_prim c = RemoveDatastore \<and> call_args c = [dss, Reference ds])
      \<and> (\<forall>c \<in> set (butlast X). busy env c)
      \<and> (case res of
           None \<Rightarrow> X \<noteq> [] \<and> call_result (last X) = None
         | Some err \<Rightarrow>
             (X \<noteq> [] \<and> call_result (last X) = Some err \<and> \<not> isResourceInUseError env err)
             \<or> (length X = n \<and> (\<forall>c \<in> set X. busy env c)
                 \<and> err = timeoutError env (if X = [] then st0 else retryDeletePending)))"
  by (rule WaitForState_run [where conf = "deleteRetry env dss ds" and pl = retryDeletePending
        and K = "\<lambda>c. call_prim c = RemoveDatastore \<and> call_args c = [dss, Reference ds]"
        and E = "\<lambda>c e. call_result c = Some e \<and> \<not> isResourceInUseError env e"
        and T = "\<lambda>c. call_result c = None" and P = "busy env", OF _ run])
     (erule deleteRetry_tick)

lemma wait_loop_run:
  assumes run: "WaitForState env (waitForDelete env ident) n st0 s = (res, s')"
  shows "\<exists>X. calls s' = calls s @ X \<and> length X \<le> n
      \<and> (\<forall>c \<in> set X. call_prim c = DatastoreFromID \<and> call_args c = [ident])
      \<and> (\<forall>c \<in> set (butlast X). call_result c = None)
      \<and> (case res of
           None \<Rightarrow> X \<noteq> [] \<and> gone env (last X)
         | Some err \<Rightarrow>
             (X \<noteq> [] \<and> call_result (last X) = Some err
                \<and> \<not> isManagedObjectNotFoundError env err)
             \<or> (length X = n \<and> (\<forall>c \<in> set X. call_result c = None)
                 \<and> err = timeoutError env (if X = [] then st0 else waitForDeletePending)))"
  by (rule WaitForState_run [where conf = "waitForDelete env ident" and pl = waitForDeletePending
        and K = "\<lambda>c. call_prim c = DatastoreFromID \<and> call_args c = [ident]"
        and E = "\<lambda>c e. call_result c = Some e \<and> \<not> isManagedObjectNotFoundError env e"
        and T = "gone env" and P = "\<lambda>c. call_result c = None", OF _ run])
     (erule waitForDelete_tick)

lemma Delete_run:
  assumes h1: "hostDatastoreSystemFromHostSystemID env (host_system_id d) s = (Inr dss, s1)"
    and h2: "datastoreFromID env (Id_d d) s1 = (Inr ds, s2)"
    and run: "resourceVSphereVmfsDatastoreDelete env ticksA ticksB d s = (res, s')"
  shows "\<exists>A B. calls s' = calls s2 @ A @ B \<and> length A \<le> ticksA \<and> length B \<le> ticksB
     \<and> (\<forall>c \<in> set A. call_prim c = RemoveDatastore \<and> call_args c = [dss, Reference ds])
     \<and> (\<forall>c \<in> set B. call_prim c = DatastoreFromID \<and> call_args c = [Id_d d])
     \<and> (\<forall>c \<in> set (butlast A). busy env c)
     \<and> (\<forall>c \<in> set (butlast B). call_result c = None)
     \<and> ((\<exists>err. A \<noteq> [] \<and> call_result (last A) = Some err \<and> \<not> isResourceInUseError env err
              \<and> B = []
              \<and> res = Some (ErrorString (''could not delete datastore: '' @ errorText env err)))
        \<or> (length A = ticksA \<and> (\<forall>c \<in> set A. busy env c) \<and> B = []
            \<and> res = Some (ErrorString (''could not delete datastore: ''
                  @ errorText env (timeoutError env (if A = [] then [] else retryDeletePending)))))
        \<or> (A \<noteq> [] \<and> call_result (last A) = None
            \<and> ((B \<noteq> [] \<and> gone env (last B) \<and> res = None)
               \<or> (\<exists>e. B \<noteq> [] \<and> call_result (last B) = Some e
                      \<and> \<not> isManagedObjectNotFoundError env e
                      \<and> res = Some (ErrorString (''error waiting for datastore to delete: ''
                            @ errorText env e)))
               \<or> (length B = ticksB \<and> (\<forall>c \<in> set B. call_result c = None)
                   \<and> res = Some (ErrorString (''error waiting for datastore to delete: ''
                         @ errorText env
                             (timeoutError env (if B = [] then [] else waitForDeletePending))))))))"
proof -
  obtain rA sA where a: "WaitForState env (deleteRetry env dss ds) ticksA [] s2 = (rA, sA)"
    by (cases "WaitForState env (deleteRetry env dss ds) ticksA [] s2")
  from retry_loop_run [OF a] obtain A where
    cA: "calls sA = calls s2 @ A" and lA: "length A \<le> ticksA"
    and kA: "\<forall>c \<in> set A. call_prim c = RemoveDatastore \<and> call_args c = [dss, Reference ds]"
    and bA: "\<forall>c \<in> set (butlast A). busy env c"
    and fA: "case rA of
           None \<Rightarrow> A \<noteq> [] \<and> call_result (last A) = None
         | Some err \<Rightarrow>
             (A \<noteq> [] \<and> call_result (last A) = Some err \<and> \<not> isResourceInUseError env err)
             \<or> (length A = ticksA \<and> (\<forall>c \<in> set A. busy env c)
                 \<and> err = timeoutError env (if A = [] then [] else retryDeletePending))"
    by blast
  show ?thesis
  proof (cases rA)
    case (Some err)
    then have res: "res = Some (ErrorString (''could not delete datastore: '' @ errorText env err))"
      and s': "s' = sA"
      using run h1 h2 a by (auto simp: resourceVSphereVmfsDatastoreDelete_def)
    show ?thesis
      using cA lA kA bA fA Some res s'
      by (intro exI [of _ A] exI [of _ "[]"]) auto
  next
    case None
    obtain rB sB where b: "WaitForState env (waitForDelete env (Id_d d)) ticksB [] sA = (rB, sB)"
      by (cases "WaitForState env (waitForDelete env (Id_d d)) ticksB [] sA")
    from wait_loop_run [OF b] obtain B where
      cB: "calls sB = calls sA @ B" and lB: "length B \<le> ticksB"
      and kB: "\<forall>c \<in> set B. call_prim c = DatastoreFromID \<and> call_args c = [Id_d d]"
      and bB: "\<forall>c \<in> set (butlast B). call_result c = None"
      and fB: "case rB of
           None \<Rightarrow> B \<noteq> [] \<and> gone env (last B)
         | Some err \<Rightarrow>
             (B \<noteq> [] \<and> call_result (last B) = Some err
                \<and> \<not> isManagedObjectNotFoundError env err)
             \<or> (length B = ticksB \<and> (\<forall>c \<in> set B. call_result c = None)
                 \<and> err = timeoutError env (if B = [] then [] else waitForDeletePending))"
      by blast
    have s': "s' = sB"
      using run h1 h2 a None b
      by (auto simp: resourceVSphereVmfsDatastoreDelete_def split: option.splits)
    have res: "res = (case rB of None \<Rightarrow> None
                 | Some err \<Rightarrow> Some (ErrorString (''error waiting for datastore to delete: ''
                            @ errorText env err)))"
      using run h1 h2 a None b
      by (auto simp: resourceVSphereVmfsDatastoreDelete_def split: option.splits)
    have okA: "A \<noteq> []" "call_result (last A) = None"
      using fA None by auto
    have cAB: "calls s' = calls s2 @ A @ B"
      using cA cB s' by simp
    show ?thesis
    proof (cases rB)
      case None
      then show ?thesis
        using cAB lA lB kA kB bA bB okA fB res
        by (intro exI [of _ A] exI [of _ B]) auto
    next
      case (Some err)
      then show ?thesis
        using cAB lA lB kA kB bA bB okA fB res
        by (intro exI [of _ A] exI [of _ B]) auto
    qed
  qed
qed

text \<open>
  Claim C5. The tick of the retry loop calls the removal and maps its outcome to a state:
  an in-use failure to pending with no error, any other failure to the error state with
  that error, success to completed. In a run of the delete that has found the datastore,
  the removals \<open>A\<close> are the ticks of the retry loop, at most \<open>ticksA\<close> of them, and
  the calls \<open>B\<close> after them are no removals. Every removal but the last failed in use:
  the loop went on after it. A last removal that failed otherwise ends the delete with
  that error and nothing is called after it. A last removal that succeeded does not make
  the delete report a removal failure. Removals that all failed in use fill the whole
  budget of ticks, and the delete reports the timeout as a failure.
\<close>

theorem delete_retry_loop:
  assumes h1: "hostDatastoreSystemFromHostSystemID env (host_system_id d) s = (Inr dss, s1)"
    and h2: "datastoreFromID env (Id_d d) s1 = (Inr ds, s2)"
    and run: "resourceVSphereVmfsDatastoreDelete env ticksA ticksB d s = (res, s')"
  shows "(\<forall>sx. fst (deleteRetryFunc env dss ds sx) =
           (case fst (removeDatastore env dss ds sx) of
              Inl err \<Rightarrow> if isResourceInUseError env err
                         then (retryDeletePending, None)
                         else (retryDeleteError, Some err)
            | Inr u \<Rightarrow> (retryDeleteCompleted, None)))
   \<and> (\<exists>A B. calls s' = calls s2 @ A @ B
     \<and> length A \<le> ticksA
     \<and> (\<forall>c \<in> set A. call_prim c = RemoveDatastore \<and> call_args c = [dss, Reference ds])
     \<and> (\<forall>c \<in> set B. call_prim c \<noteq> RemoveDatastore)
     \<and> (\<forall>c \<in> set (butlast A). busy env c)
     \<and> (\<forall>err. A \<noteq> [] \<and> call_result (last A) = Some err \<and> \<not> isResourceInUseError env err \<longrightarrow>
            B = []
            \<and> res = Some (ErrorString (''could not delete datastore: '' @ errorText env err)))
     \<and> (A \<noteq> [] \<and> call_result (last A) = None \<longrightarrow>
            (\<forall>t. res \<noteq> Some (ErrorString (''could not delete datastore: '' @ t))))
     \<and> ((\<forall>c \<in> set A. busy env c) \<longrightarrow>
            length A = ticksA \<and> B = []
            \<and> res = Some (ErrorString (''could not delete datastore: ''
                  @ errorText env
                      (timeoutError env (if A = [] then [] else retryDeletePending))))))"
proof (rule conjI)
  show "\<forall>sx. fst (deleteRetryFunc env dss ds sx) =
           (case fst (removeDatastore env dss ds sx) of
              Inl err \<Rightarrow> if isResourceInUseError env err
                         then (retryDeletePending, None)
                         else (retryDeleteError, Some err)
            | Inr u \<Rightarrow> (retryDeleteCompleted, None))"
    by (simp add: deleteRetryFunc_def split: prod.splits sum.splits)
  from Delete_run [OF h1 h2 run] obtain A B where
    c: "calls s' = calls s2 @ A @ B" and lA: "length A \<le> ticksA"
    and kA: "\<forall>c \<in> set A. call_prim c = RemoveDatastore \<and> call_args c = [dss, Reference ds]"
    and kB: "\<forall>c \<in> set B. call_prim c = DatastoreFromID \<and> call_args c = [Id_d d]"
    and bA: "\<forall>c \<in> set (butlast A). busy env c"
    and out: "(\<exists>err. A \<noteq> [] \<and> call_result (last A) = Some err \<and> \<not> isResourceInUseError env err
              \<and> B = []
              \<and> res = Some (ErrorString (''could not delete datastore: '' @ errorText env err)))
        \<or> (length A = ticksA \<and> (\<forall>c \<in> set A. busy env c) \<and> B = []
            \<and> res = Some (ErrorString (''could not delete datastore: ''
                  @ errorText env (timeoutError env (if A = [] then [] else retryDeletePending)))))
        \<or> (A \<noteq> [] \<and> call_result (last A) = None
            \<and> (res = None \<or> (\<exists>t. res = Some (ErrorString (''error waiting for datastore to delete: '' @ t)))))"
    by blast
  have nB: "\<forall>c \<in> set B. call_prim c \<noteq> RemoveDatastore"
    using kB by auto
  have busy_last: "\<exists>e. call_result (last A) = Some e \<and> isResourceInUseError env e"
    if "A \<noteq> []" and "\<forall>c \<in> set A. busy env c"
  proof -
    have "busy env (last A)" using that by simp
    then show ?thesis by (auto simp: busy_def split: option.splits)
  qed
  have stop: "\<forall>err. A \<noteq> [] \<and> call_result (last A) = Some err \<and> \<not> isResourceInUseError env err \<longrightarrow>
            B = []
            \<and> res = Some (ErrorString (''could not delete datastore: '' @ errorText env err))"
    using out busy_last by auto
  have completed: "A \<noteq> [] \<and> call_result (last A) = None \<longrightarrow>
            (\<forall>t. res \<noteq> Some (ErrorString (''could not delete datastore: '' @ t)))"
    using out busy_last by auto
  have timeout: "(\<forall>c \<in> set A. busy env c) \<longrightarrow>
            length A = ticksA \<and> B = []
            \<and> res = Some (ErrorString (''could not delete datastore: ''
                  @ errorText env
                      (timeoutError env (if A = [] then [] else retryDeletePending))))"
  proof
    assume all: "\<forall>c \<in> set A. busy env c"
    have "\<not> (A \<noteq> [] \<and> (\<exists>err. call_result (last A) = Some err \<and> \<not> isResourceInUseError env err))"
      using all busy_last by auto
    moreover have "\<not> (A \<noteq> [] \<and> call_result (last A) = None)"
      using all busy_last by auto
    ultimately show "length A = ticksA \<and> B = []
            \<and> res = Some (ErrorString (''could not delete datastore: ''
                  @ errorText env
                      (timeoutError env (if A = [] then [] else retryDeletePending))))"
      using out by blast
  qed
  show "\<exists>A B. calls s' = calls s2 @ A @ B
     \<and> length A \<le> ticksA
     \<and> (\<forall>c \<in> set A. call_prim c = RemoveDatastore \<and> call_args c = [dss, Reference ds])
     \<and> (\<forall>c \<in> set B. call_prim c \<noteq> RemoveDatastore)
     \<and> (\<forall>c \<in> set (butlast A). busy env c)
     \<and> (\<forall>err. A \<noteq> [] \<and> call_result (last A) = Some err \<and> \<not> isResourceInUseError env err \<longrightarrow>
            B = []
            \<and> res = Some (ErrorString (''could not delete datastore: '' @ errorText env err)))
     \<and> (A \<noteq> [] \<and> call_result (last A) = None \<longrightarrow>
            (\<forall>t. res \<noteq> Some (ErrorString (''could not delete datastore: '' @ t))))
     \<and> ((\<forall>c \<in> set A. busy env c) \<longrightarrow>
            length A = ticksA \<and> B = []
            \<and> res = Some (ErrorString (''could not delete datastore: ''
                  @ errorText env
                      (timeoutError env (if A = [] then [] else retryDeletePending)))))"
    using c lA kA nB bA stop completed timeout by blast
qed

text \<open>
  C5's theorem on the scripted endpoint: the datastore is in use for two removals and
  the retry loop has two ticks.
\<close>

theorem delete_retry_loop_witness:
  "resourceVSphereVmfsDatastoreDelete (fake healthy) 2 3 d0
      (one_datastore\<lparr>world := \<lparr>fw_present = True, fw_extents = [''disk-a''], fw_busy = 2, fw_stale = 2\<rparr>\<rparr>) =
     ((Some (ErrorString ''could not delete datastore: timeout while waiting, last state: retryDeletePending'') :: string error option),
      \<lparr>world = \<lparr>fw_present = True, fw_extents = [''disk-a''], fw_busy = 0, fw_stale = 2\<rparr>,
        calls = [Call HostDatastoreSystemFromHostSystemID [''host-9''] None,
                 Call DatastoreFromID [''ds-1''] None,
                 Call RemoveDatastore [''dss-of-host-9'', ''ds-1''] (Some ''resource in use''),
                 Call RemoveDatastore [''dss-of-host-9'', ''ds-1''] (Some ''resource in use'')]\<rparr>)
   \<and> (\<forall>sx. fst (deleteRetryFunc (fake healthy) ''dss-of-host-9'' ds1 sx) =
           (case fst (removeDatastore (fake healthy) ''dss-of-host-9'' ds1 sx) of
              Inl err \<Rightarrow> if isResourceInUseError (fake healthy) err
                         then (retryDeletePending, None)
                         else (retryDeleteError, Some err)
            | Inr u \<Rightarrow> (retryDeleteCompleted, None)))
   \<and> (\<exists>A B. calls (\<lparr>world = \<lparr>fw_present = True, fw_extents = [''disk-a''], fw_busy = 0, fw_stale = 2\<rparr>,
        calls = [Call HostDatastoreSystemFromHostSystemID [''host-9''] None,
                 Call DatastoreFromID [''ds-1''] None,
                 Call RemoveDatastore [''dss-of-host-9'', ''ds-1''] (Some ''resource in use''),
                 Call RemoveDatastore [''dss-of-host-9'', ''ds-1''] (Some ''resource in use'')]\<rparr>) = calls (\<lparr>world = \<lparr>fw_present = True, fw_extents = [''disk-a''], fw_busy = 2, fw_stale = 2\<rparr>,
        calls = [Call HostDatastoreSystemFromHostSystemID [''host-9''] None,
                 Call DatastoreFromID [''ds-1''] None]\<rparr>) @ A @ B
     \<and> length A \<le> (2::nat)
     \<and> (\<forall>c \<in> set A. call_prim c = RemoveDatastore \<and> call_args c = [''dss-of-host-9'', Reference ds1])
     \<and> (\<forall>c \<in> set B. call_prim c \<noteq> RemoveDatastore)
     \<and> (\<forall>c \<in> set (butlast A). busy (fake healthy) c)
     \<and> (\<forall>err. A \<noteq> [] \<and> call_result (last A) = Some err \<and> \<not> isResourceInUseError (fake healthy) err \<longrightarrow>
            B = []
            \<and> (Some (ErrorString ''could not delete datastore: timeout while waiting, last state: retryDeletePending'') :: string error option) = Some (ErrorString (''could not delete datastore: '' @ errorText (fake healthy) err)))
     \<and> (A \<noteq> [] \<and> call_result (last A) = None \<longrightarrow>
            (\<forall>t. (Some (ErrorString ''could not delete datastore: timeout while waiting, last state: retryDeletePending'') :: string error option) \<noteq> Some (ErrorString (''could not delete datastore: '' @ t))))
     \<and> ((\<forall>c \<in> set A. busy (fake healthy) c) \<longrightarrow>
            length A = (2::nat) \<and> B = []
            \<and> (Some (ErrorString ''could not delete datastore: timeout while waiting, last state: retryDeletePending'') :: string error option) = Some (ErrorString (''could not delete datastore: ''
                  @ errorText (fake healthy)
                      (timeoutError (fake healthy) (if A = [] then [] else retryDeletePending))))))"
proof -
  have h1: "hostDatastoreSystemFromHostSystemID (fake healthy) (host_system_id d0)
      (one_datastore\<lparr>world := \<lparr>fw_present = True, fw_extents = [''disk-a''], fw_busy = 2, fw_stale = 2\<rparr>\<rparr>) =
     (Inr ''dss-of-host-9'',
      \<lparr>world = \<lparr>fw_present = True, fw_extents = [''disk-a''], fw_busy = 2, fw_stale = 2\<rparr>,
        calls = [Call HostDatastoreSystemFromHostSystemID [''host-9''] None]\<rparr>)"
    by code_simp
  have h2: "datastoreFromID (fake healthy) (Id_d d0)
      \<lparr>world = \<lparr>fw_present = True, fw_extents = [''disk-a''], fw_busy = 2, fw_stale = 2\<rparr>,
        calls = [Call HostDatastoreSystemFromHostSystemID [''host-9''] None]\<rparr> =
     (Inr ds1,
      \<lparr>world = \<lparr>fw_present = True, fw_extents = [''disk-a''], fw_busy = 2, fw_stale = 2\<rparr>,
        calls = [Call HostDatastoreSystemFromHostSystemID [''host-9''] None,
                 Call DatastoreFromID [''ds-1''] None]\<rparr>)"
    by code_simp
  have run: "resourceVSphereVmfsDatastoreDelete (fake healthy) 2 3 d0
      (one_datastore\<lparr>world := \<lparr>fw_present = True, fw_extents = [''disk-a''], fw_busy = 2, fw_stale = 2\<rparr>\<rparr>) =
     ((Some (ErrorString ''could not delete datastore: timeout while waiting, last state: retryDeletePending'') :: string error option),
      \<lparr>world = \<lparr>fw_present = True, fw_extents = [''disk-a''], fw_busy = 0, fw_stale = 2\<rparr>,
        calls = [Call HostDatastoreSystemFromHostSystemID [''host-9''] None,
                 Call DatastoreFromID [''ds-1''] None,
                 Call RemoveDatastore [''dss-of-host-9'', ''ds-1''] (Some ''resource in use''),
                 Call RemoveDatastore [''dss-of-host-9'', ''ds-1''] (Some ''resource in use'')]\<rparr>)"
    by code_simp
  show ?thesis
    by (rule conjI [OF run delete_retry_loop [OF h1 h2 run]])
qed



end
